theory Spec2Isabelle
  imports Complex_Main "HOL-Library.Sublist" "HOL-Library.AList"
begin

section \<open>Python values, dictionaries and exceptions\<close>

text \<open>
  The harness moves JSON-like values around: the engine's artifact is read with
  \<^verbatim>\<open>json.load\<close>, records are Python dictionaries with string keys. Numbers are
  modelled as reals (Python's \<^verbatim>\<open>int\<close> and \<^verbatim>\<open>float\<close> are not told apart, rounding of
  floats is not modelled). A dictionary is an association list in insertion order:
  \<^verbatim>\<open>d[k] = v\<close> is \<open>AList.update k v d\<close> (an existing key keeps its place, a new key
  goes last), \<^verbatim>\<open>k in d\<close> is \<open>map_of d k \<noteq> None\<close>.
\<close>

datatype pyval =
    PNone
  | PBool bool
  | PNum real
  | PStr string
  | PList "pyval list"
  | PDict "(string \<times> pyval) list"

type_synonym pydict = "(string \<times> pyval) list"

text \<open>
  An exception carries its class name and its message (\<^verbatim>\<open>str(e)\<close>). \<open>Exn\<close> is an
  exception whose class derives from \<^verbatim>\<open>Exception\<close>, the only ones an
  \<^verbatim>\<open>except Exception\<close> clause catches; \<open>BaseExn\<close> is any other
  (\<^verbatim>\<open>SystemExit\<close>, \<^verbatim>\<open>KeyboardInterrupt\<close>).
\<close>

datatype exn = Exn string string | BaseExn string string

fun exn_msg :: "exn \<Rightarrow> string" where
  "exn_msg (Exn c m) = m"
| "exn_msg (BaseExn c m) = m"

fun is_Exception :: "exn \<Rightarrow> bool" where
  "is_Exception (Exn c m) = True"
| "is_Exception (BaseExn c m) = False"

text \<open>Sequencing of a step that may raise: the first exception ends the block.\<close>

definition bnd :: "exn + 'a \<Rightarrow> ('a \<Rightarrow> exn + 'b) \<Rightarrow> exn + 'b" where
  "bnd m f = (case m of Inl e \<Rightarrow> Inl e | Inr x \<Rightarrow> f x)"

text \<open>
  Arithmetic on values as Python does it: \<^verbatim>\<open>bool\<close> is a number, every other
  non-number raises \<^verbatim>\<open>TypeError\<close>.
\<close>

fun as_number :: "pyval \<Rightarrow> real option" where
  "as_number (PNum x) = Some x"
| "as_number (PBool b) = Some (if b then 1 else 0)"
| "as_number PNone = None"
| "as_number (PStr s) = None"
| "as_number (PList vs) = None"
| "as_number (PDict d) = None"

definition py_gt_zero :: "pyval \<Rightarrow> exn + bool" where
  "py_gt_zero v =
     (case as_number v of
        Some x \<Rightarrow> Inr (0 < x)
      | None \<Rightarrow> Inl (Exn ''TypeError'' ''> not supported between these instances''))"

definition py_truediv :: "pyval \<Rightarrow> pyval \<Rightarrow> exn + pyval" where
  "py_truediv a b =
     (case as_number a of
        None \<Rightarrow> Inl (Exn ''TypeError'' ''unsupported operand type(s) for /'')
      | Some x \<Rightarrow>
          (case as_number b of
             None \<Rightarrow> Inl (Exn ''TypeError'' ''unsupported operand type(s) for /'')
           | Some y \<Rightarrow>
               if y = 0 then Inl (Exn ''ZeroDivisionError'' ''division by zero'')
               else Inr (PNum (x / y))))"

section \<open>The metric table\<close>

text \<open>
  \<^verbatim>\<open>METRICS_TO_COLLECT\<close> of \<^verbatim>\<open>run_multiple_experiments.py\<close>: display name and
  record key, in the order of the source. The display names of the source are Chinese
  text; they are written here as English glosses, the keys are the source's.
\<close>

definition METRICS_TO_COLLECT :: "(string \<times> string) list" where
  "METRICS_TO_COLLECT =
     [(''long-term average system cost'', ''C_mean''),
      (''average end-to-end delay'', ''avg_delay_mean''),
      (''queue stability'', ''Avg_queue''),
      (''per-slot decision latency'', ''DecisionTime_ms_mean''),
      (''cost-delay trade-off'', ''C_mean_avg_delay_ratio'')]"

section \<open>The coordinator's ratio injection\<close>

text \<open>
  Lines 460--467 of \<^verbatim>\<open>main\<close>:
  \<^verbatim>\<open>
  if "C_mean" in run_result and "avg_delay_mean" in run_result:
      if run_result["avg_delay_mean"] > 0:
          run_result["C_mean_avg_delay_ratio"] = run_result["C_mean"] / run_result["avg_delay_mean"]
      else:
          run_result["C_mean_avg_delay_ratio"] = 0
  \<close>
  The comparison and the division raise on values that are not numbers.
\<close>

definition inject_ratio :: "pydict \<Rightarrow> exn + pydict" where
  "inject_ratio run_result =
     (case map_of run_result ''C_mean'' of
        None \<Rightarrow> Inr run_result
      | Some c \<Rightarrow>
          (case map_of run_result ''avg_delay_mean'' of
             None \<Rightarrow> Inr run_result
           | Some d \<Rightarrow>
               bnd (py_gt_zero d) (\<lambda>positive.
                 if positive
                 then bnd (py_truediv c d) (\<lambda>q.
                        Inr (AList.update ''C_mean_avg_delay_ratio'' q run_result))
                 else Inr (AList.update ''C_mean_avg_delay_ratio'' (PNum 0) run_result))))"

section \<open>The metrics aggregator\<close>

text \<open>
  \<^verbatim>\<open>collect_and_save_metrics(all_results, output_dir)\<close>. The corpus
  \<^verbatim>\<open>all_results\<close> is a dictionary from a solver's short name to the list of its run
  records, in insertion order. For one metric key the values of a solver are collected by
  \<^verbatim>\<open>
  for run_idx, run_result in enumerate(run_results):
      if metric_key in run_result:
          solver_metric_values.append(run_result[metric_key])
  \<close>
\<close>

type_synonym corpus = "(string \<times> pydict list) list"

definition metric_values :: "string \<Rightarrow> pydict list \<Rightarrow> pyval list" where
  "metric_values metric_key run_results =
     List.map_filter (\<lambda>run_result. map_of run_result metric_key) run_results"

text \<open>
  \<^verbatim>\<open>metric_data[solver_name] = solver_metric_values\<close> is done only for a solver with
  at least one value; \<^verbatim>\<open>has_data\<close> is set as soon as one value is seen.
\<close>

definition collect_metric_data :: "string \<Rightarrow> corpus \<Rightarrow> (string \<times> pyval list) list" where
  "collect_metric_data metric_key all_results =
     fold (\<lambda>item metric_data.
             let solver_metric_values = metric_values metric_key (snd item)
             in if solver_metric_values \<noteq> []
                then AList.update (fst item) solver_metric_values metric_data
                else metric_data)
          all_results []"

definition has_data :: "string \<Rightarrow> corpus \<Rightarrow> bool" where
  "has_data metric_key all_results =
     list_ex (\<lambda>item. metric_values metric_key (snd item) \<noteq> []) all_results"

text \<open>
  The CSV table of one metric: the header and the rows, each row the run number and one
  cell per column. Without data the header names every solver of the corpus and there is
  no row. With data the columns are the solvers of \<^verbatim>\<open>metric_data\<close>, there are
  \<^verbatim>\<open>max(len(values) for values in metric_data.values())\<close> rows, and the cell of row
  \<^verbatim>\<open>run_idx\<close> is \<^verbatim>\<open>metric_data[solver_name][run_idx]\<close> when
  \<^verbatim>\<open>run_idx < len(metric_data[solver_name])\<close> and the empty string otherwise.
\<close>

datatype cell = Value pyval | Blank

type_synonym csv_table = "string list \<times> (nat \<times> cell list) list"

definition table_cell :: "(string \<times> pyval list) list \<Rightarrow> nat \<Rightarrow> string \<Rightarrow> cell" where
  "table_cell metric_data run_idx solver_name =
     (case map_of metric_data solver_name of
        None \<Rightarrow> Blank
      | Some vs \<Rightarrow> if run_idx < length vs then Value (vs ! run_idx) else Blank)"

definition metric_table :: "string \<Rightarrow> corpus \<Rightarrow> csv_table" where
  "metric_table metric_key all_results =
     (let metric_data = collect_metric_data metric_key all_results
      in if \<not> has_data metric_key all_results
         then (''run number'' # map fst all_results, [])
         else
           let solver_names = map fst metric_data;
               max_runs = fold max (map (\<lambda>item. length (snd item)) metric_data) 0
           in (''run number'' # solver_names,
               map (\<lambda>run_idx. (run_idx + 1, map (table_cell metric_data run_idx) solver_names))
                   [0..<max_runs]))"

text \<open>
  The summary report, \<^verbatim>\<open>metrics_summary.txt\<close>. For each metric and each solver:
  \<^verbatim>\<open>
  values = []
  for run_result in run_results:
      if metric_key in run_result:
          values.append(run_result[metric_key])
  if values:
      mean_val = sum(values) / len(values)
      min_val = min(values)
      max_val = max(values)
      ... four lines: mean, minimum, maximum, number of valid runs
  else:
      ... one line: no valid data
  \<close>
  \<^verbatim>\<open>sum\<close> raises \<^verbatim>\<open>TypeError\<close> on a value that is not a number. The report is a list
  of entries here, the numbers as they are before \<^verbatim>\<open>:.4f\<close> formats them; the two title
  lines (with the time of day) are left out.
\<close>

datatype stat_line =
    Section string
  | Stats string real real real nat
  | NoValidData string

fun py_numbers :: "pyval list \<Rightarrow> exn + real list" where
  "py_numbers [] = Inr []"
| "py_numbers (v # vs) =
     (case as_number v of
        None \<Rightarrow> Inl (Exn ''TypeError'' ''unsupported operand type(s) for +'')
      | Some x \<Rightarrow> bnd (py_numbers vs) (\<lambda>xs. Inr (x # xs)))"

fun py_min :: "real list \<Rightarrow> real" where
  "py_min [] = 0"
| "py_min (x # xs) = fold min xs x"

fun py_max :: "real list \<Rightarrow> real" where
  "py_max [] = 0"
| "py_max (x # xs) = fold max xs x"

definition solver_stats :: "string \<Rightarrow> string \<Rightarrow> pydict list \<Rightarrow> exn + stat_line" where
  "solver_stats solver_name metric_key run_results =
     (let values = metric_values metric_key run_results
      in if values \<noteq> []
         then bnd (py_numbers values) (\<lambda>xs.
                Inr (Stats solver_name (sum_list xs / real (length xs)) (py_min xs) (py_max xs)
                       (length xs)))
         else Inr (NoValidData solver_name))"

text \<open>
  The two loops write as they go and the whole block stands in one
  \<^verbatim>\<open>try ... except Exception\<close>: an exception ends the report where it stands and is
  swallowed. The result is what was written, and the exception if there was one.
\<close>

fun stats_for_metric :: "string \<Rightarrow> corpus \<Rightarrow> stat_line list \<times> exn option" where
  "stats_for_metric metric_key [] = ([], None)"
| "stats_for_metric metric_key (item # rest) =
     (case solver_stats (fst item) metric_key (snd item) of
        Inl e \<Rightarrow> ([], Some e)
      | Inr l \<Rightarrow> (l # fst (stats_for_metric metric_key rest),
                  snd (stats_for_metric metric_key rest)))"

fun summary_lines :: "(string \<times> string) list \<Rightarrow> corpus \<Rightarrow> stat_line list \<times> exn option" where
  "summary_lines [] all_results = ([], None)"
| "summary_lines (metric # metrics) all_results =
     (case snd (stats_for_metric (snd metric) all_results) of
        Some e \<Rightarrow> (Section (fst metric) # fst (stats_for_metric (snd metric) all_results), Some e)
      | None \<Rightarrow>
          (Section (fst metric) # fst (stats_for_metric (snd metric) all_results)
             @ fst (summary_lines metrics all_results),
           snd (summary_lines metrics all_results)))"

definition metrics_summary :: "corpus \<Rightarrow> stat_line list \<times> exn option" where
  "metrics_summary all_results = summary_lines METRICS_TO_COLLECT all_results"






section \<open>Names and paths\<close>

text \<open>
  \<^verbatim>\<open>solver_name.split('.')[-1]\<close>, the short name of a solver, and the name of a run's
  directory, \<^verbatim>\<open>f"{simple_solver_name}_run_{run_idx + 1}"\<close>.
\<close>

definition short_name :: "string \<Rightarrow> string" where
  "short_name solver_name = rev (takeWhile (\<lambda>c. c \<noteq> CHR ''.'') (rev solver_name))"

fun show_nat :: "nat \<Rightarrow> string" where
  "show_nat n =
     (if n < 10 then [''0123456789'' ! n]
      else show_nat (n div 10) @ [''0123456789'' ! (n mod 10)])"

declare show_nat.simps [simp del]

definition run_dir_name :: "string \<Rightarrow> nat \<Rightarrow> string" where
  "run_dir_name simple_name run_idx = simple_name @ ''_run_'' @ show_nat (run_idx + 1)"

text \<open>
  A path is the list of its components below the output directory; \<open>path_str\<close> is
  \<^verbatim>\<open>os.path.join\<close> of the output directory and the components.
\<close>

type_synonym path = "string list"

definition path_str :: "string \<Rightarrow> path \<Rightarrow> string" where
  "path_str output_dir p = foldl (\<lambda>a b. a @ ''/'' @ b) output_dir p"

text \<open>\<^verbatim>\<open>"summary.json" in file\<close>: the substring test on a file name.\<close>

fun contains :: "string \<Rightarrow> string \<Rightarrow> bool" where
  "contains sub [] = (sub = [])"
| "contains sub (c # cs) = (prefix sub (c # cs) \<or> contains sub cs)"

section \<open>The file system below the output directory\<close>

text \<open>
  A file holds text, a list of lines, or a JSON document, the value \<^verbatim>\<open>json.load\<close>
  returns for it, or one of the aggregator's two exports, a CSV table or the summary
  report (\<^verbatim>\<open>json.load\<close> of a file that is not a JSON document raises). A line is its
  fixed text and the values formatted into it. A directory lists its entries in
  order: the order \<^verbatim>\<open>os.walk\<close> meets them in. A real file system lists a directory
  in an order of its own; here a new entry goes last.
\<close>

type_synonym line = "string \<times> pyval list"

datatype fcontent =
    Text "line list"
  | Json pyval
  | Csv "string list" "(nat \<times> cell list) list"
  | Report "stat_line list"

datatype node = File fcontent | Dir "(string \<times> node) list"

type_synonym entries = "(string \<times> node) list"

fun lookup :: "entries \<Rightarrow> path \<Rightarrow> node option" where
  "lookup es [] = Some (Dir es)"
| "lookup es (d # p) =
     (case map_of es d of
        None \<Rightarrow> None
      | Some (File c) \<Rightarrow> (if p = [] then Some (File c) else None)
      | Some (Dir sub) \<Rightarrow> lookup sub p)"

text \<open>\<^verbatim>\<open>os.makedirs(path, exist_ok=True)\<close>.\<close>

fun makedirs_at :: "entries \<Rightarrow> path \<Rightarrow> exn + entries" where
  "makedirs_at es [] = Inr es"
| "makedirs_at es (d # p) =
     (case map_of es d of
        None \<Rightarrow> bnd (makedirs_at [] p) (\<lambda>sub. Inr (AList.update d (Dir sub) es))
      | Some (File c) \<Rightarrow>
          Inl (Exn (if p = [] then ''FileExistsError'' else ''NotADirectoryError'') d)
      | Some (Dir sub) \<Rightarrow> bnd (makedirs_at sub p) (\<lambda>sub'. Inr (AList.update d (Dir sub') es)))"

text \<open>\<^verbatim>\<open>open(path, "w")\<close> and writing the content: the file is made or replaced.\<close>

fun write_at :: "entries \<Rightarrow> path \<Rightarrow> fcontent \<Rightarrow> exn + entries" where
  "write_at es [] c = Inl (Exn ''IsADirectoryError'' [])"
| "write_at es (d # p) c =
     (case map_of es d of
        None \<Rightarrow>
          (if p = [] then Inr (AList.update d (File c) es) else Inl (Exn ''FileNotFoundError'' d))
      | Some (File c') \<Rightarrow>
          (if p = [] then Inr (AList.update d (File c) es) else Inl (Exn ''NotADirectoryError'' d))
      | Some (Dir sub) \<Rightarrow>
          (if p = [] then Inl (Exn ''IsADirectoryError'' d)
           else bnd (write_at sub p c) (\<lambda>sub'. Inr (AList.update d (Dir sub') es))))"

text \<open>
  \<^verbatim>\<open>open(path, "a")\<close> and writing lines: the lines go after the text the file holds.
  The text of a JSON document is not modelled: lines written after one are kept, the
  document is not, and the file no longer parses.
\<close>

fun appended :: "node option \<Rightarrow> line list \<Rightarrow> fcontent" where
  "appended (Some (File (Text old))) new = Text (old @ new)"
| "appended other new = Text new"

definition append_at :: "entries \<Rightarrow> path \<Rightarrow> line list \<Rightarrow> exn + entries" where
  "append_at es p new = write_at es p (appended (lookup es p) new)"

text \<open>
  \<^verbatim>\<open>os.walk(run_dir)\<close>, top down: the files of a directory in order, then its
  sub-directories in order, each walked the same way. The result is the list of the paths
  \<^verbatim>\<open>os.path.join(root, file)\<close> in the order the loop of the executor meets them.
\<close>

fun files_of :: "path \<Rightarrow> entries \<Rightarrow> path list" where
  "files_of here [] = []"
| "files_of here ((name, File c) # es) = (here @ [name]) # files_of here es"
| "files_of here ((name, Dir sub) # es) = files_of here es"

fun walk :: "path \<Rightarrow> entries \<Rightarrow> path list"
  and walk_dirs :: "path \<Rightarrow> entries \<Rightarrow> path list" where
  "walk here es = files_of here es @ walk_dirs here es"
| "walk_dirs here [] = []"
| "walk_dirs here ((name, File c) # es) = walk_dirs here es"
| "walk_dirs here ((name, Dir sub) # es) = walk (here @ [name]) sub @ walk_dirs here es"


text \<open>
  \<^verbatim>\<open>shutil.copy2(src, dst)\<close>: a destination that is a directory stands for the file of
  the source's name in it; copying a file onto itself raises \<^verbatim>\<open>SameFileError\<close>.
\<close>

definition copy2 :: "entries \<Rightarrow> path \<Rightarrow> path \<Rightarrow> exn + entries" where
  "copy2 es src dst =
     (let dst' = (case lookup es dst of Some (Dir sub) \<Rightarrow> dst @ [last src] | _ \<Rightarrow> dst)
      in if src = dst' then Inl (Exn ''SameFileError'' (last src))
         else (case lookup es src of
                 Some (File c) \<Rightarrow> write_at es dst' c
               | _ \<Rightarrow> Inl (Exn ''FileNotFoundError'' (last src))))"

section \<open>The engine and the state of the process\<close>

text \<open>
  The simulation engine is the module \<^verbatim>\<open>main\<close>, which is not part of the repository:
  three module attributes and the entry point \<^verbatim>\<open>main.main()\<close>. An attribute is
  \<open>None\<close> when the module does not have it and \<open>Some PNone\<close> when it is Python's
  \<^verbatim>\<open>None\<close>. The entry point is a parameter of the model: any function that, from the
  attributes and the content of the directory \<^verbatim>\<open>OUT_DIR\<close> names, gives the new
  attributes, the new content of that directory, the text it printed to
  \<^verbatim>\<open>sys.stdout\<close> and \<^verbatim>\<open>sys.stderr\<close>, and the exception it raised if it raised one.
  The engine writes nowhere but below its output directory.
\<close>

record engine_cfg =
  OUT_DIR :: "pyval option"
  SLOTS :: "pyval option"
  SOLVERS_TO_RUN :: "pyval option"

record eng_result =
  eng_raised :: "exn option"
  eng_cfg :: engine_cfg
  eng_files :: entries
  eng_out :: string
  eng_err :: string

type_synonym engine = "engine_cfg \<Rightarrow> entries \<Rightarrow> eng_result"

text \<open>
  The state: the attributes of the engine module, the content of the output directory,
  the text that reached the console, the two \<^verbatim>\<open>StringIO\<close> buffers when
  \<^verbatim>\<open>sys.stdout\<close> and \<^verbatim>\<open>sys.stderr\<close> are redirected to them, the time of day as
  \<^verbatim>\<open>time.strftime\<close> formats it and the seconds \<^verbatim>\<open>time.time() - start_time\<close> gives
  (the model does not advance them), and three local variables of the coordinator
  \<^verbatim>\<open>main\<close> of \<^verbatim>\<open>run_multiple_experiments.py\<close> that are updated inside its
  \<^verbatim>\<open>try\<close> blocks and keep their value when one raises: the corpus
  \<^verbatim>\<open>all_results\<close>, the list \<^verbatim>\<open>solver_results\<close>, and whether the name
  \<^verbatim>\<open>traceback\<close> is bound (\<^verbatim>\<open>import traceback\<close> stands inside three handlers of
  \<^verbatim>\<open>main\<close>, which makes the name local to the function and unbound until one of them
  has run).
\<close>

record world =
  module_attrs :: engine_cfg
  fs :: entries
  console_out :: string
  console_err :: string
  capture :: "(string \<times> string) option"
  clock :: string
  elapsed :: real
  all_results :: corpus
  solver_results :: "pydict list"
  traceback_bound :: bool

text \<open>
  A statement takes the state and gives its value, or the exception it raised, and the
  state it leaves: what it wrote before it raised stays written.
\<close>

type_synonym 'a io = "world \<Rightarrow> (exn + 'a) \<times> world"

definition ret :: "'a \<Rightarrow> 'a io" where
  "ret x w = (Inr x, w)"

definition raise_exn :: "exn \<Rightarrow> 'a io" where
  "raise_exn e w = (Inl e, w)"

definition seq :: "'a io \<Rightarrow> ('a \<Rightarrow> 'b io) \<Rightarrow> 'b io" where
  "seq m f w = (case m w of (Inl e, w') \<Rightarrow> (Inl e, w') | (Inr x, w') \<Rightarrow> f x w')"

text \<open>\<^verbatim>\<open>try: m except Exception as e: h(e)\<close> and \<^verbatim>\<open>try: m finally: fin\<close>.\<close>

definition try_except :: "'a io \<Rightarrow> (exn \<Rightarrow> 'a io) \<Rightarrow> 'a io" where
  "try_except m h w =
     (case m w of
        (Inl e, w') \<Rightarrow> if is_Exception e then h e w' else (Inl e, w')
      | (Inr x, w') \<Rightarrow> (Inr x, w'))"

definition try_finally :: "'a io \<Rightarrow> unit io \<Rightarrow> 'a io" where
  "try_finally m fin w =
     (case m w of
        (r, w') \<Rightarrow> (case fin w' of (Inl e, w'') \<Rightarrow> (Inl e, w'') | (Inr u, w'') \<Rightarrow> (r, w'')))"

definition fs_step :: "(entries \<Rightarrow> exn + entries) \<Rightarrow> unit io" where
  "fs_step f w = (case f (fs w) of Inl e \<Rightarrow> (Inl e, w) | Inr es \<Rightarrow> (Inr (), w\<lparr>fs := es\<rparr>))"

definition os_makedirs :: "path \<Rightarrow> unit io" where
  "os_makedirs p = fs_step (\<lambda>es. makedirs_at es p)"

definition write_text :: "path \<Rightarrow> line list \<Rightarrow> unit io" where
  "write_text p ls = fs_step (\<lambda>es. write_at es p (Text ls))"

definition append_text :: "path \<Rightarrow> line list \<Rightarrow> unit io" where
  "append_text p ls = fs_step (\<lambda>es. append_at es p ls)"

definition json_dump :: "path \<Rightarrow> pyval \<Rightarrow> unit io" where
  "json_dump p v = fs_step (\<lambda>es. write_at es p (Json v))"

definition shutil_copy2 :: "path \<Rightarrow> path \<Rightarrow> unit io" where
  "shutil_copy2 src dst = fs_step (\<lambda>es. copy2 es src dst)"

text \<open>\<^verbatim>\<open>with open(p) as f: json.load(f)\<close>.\<close>

definition json_load :: "path \<Rightarrow> pyval io" where
  "json_load p w =
     (case lookup (fs w) p of
        Some (File (Json v)) \<Rightarrow> (Inr v, w)
      | Some (File other) \<Rightarrow> (Inl (Exn ''JSONDecodeError'' ''Expecting value''), w)
      | Some (Dir sub) \<Rightarrow> (Inl (Exn ''IsADirectoryError'' (last p)), w)
      | None \<Rightarrow> (Inl (Exn ''FileNotFoundError'' (last p)), w))"

text \<open>
  Text written to \<^verbatim>\<open>sys.stdout\<close> and \<^verbatim>\<open>sys.stderr\<close> goes to what they are at the
  moment: the two buffers when they are redirected, the console when they are not.
\<close>

definition to_console :: "(string \<times> string) option \<Rightarrow> string \<Rightarrow> string" where
  "to_console redirected s = (case redirected of None \<Rightarrow> s | Some b \<Rightarrow> [])"

definition to_buffers ::
  "(string \<times> string) option \<Rightarrow> string \<Rightarrow> string \<Rightarrow> (string \<times> string) option" where
  "to_buffers redirected out err =
     (case redirected of None \<Rightarrow> None | Some b \<Rightarrow> Some (fst b @ out, snd b @ err))"

definition emit :: "string \<Rightarrow> string \<Rightarrow> world \<Rightarrow> world" where
  "emit out err w =
     w\<lparr>console_out := console_out w @ to_console (capture w) out,
       console_err := console_err w @ to_console (capture w) err,
       capture := to_buffers (capture w) out err\<rparr>"

definition py_print :: "string \<Rightarrow> unit io" where
  "py_print s w = (Inr (), emit s [] w)"

text \<open>
  \<^verbatim>\<open>import main\<close>: the model is given the entry point when the module can be
  imported, and nothing when it cannot.
\<close>

definition import_main :: "engine option \<Rightarrow> engine io" where
  "import_main m =
     (case m of
        None \<Rightarrow> raise_exn (Exn ''ModuleNotFoundError'' ''No module named main'')
      | Some eng \<Rightarrow> ret eng)"

definition dir_entries :: "entries \<Rightarrow> string \<Rightarrow> entries" where
  "dir_entries es d = (case map_of es d of Some (Dir sub) \<Rightarrow> sub | _ \<Rightarrow> [])"

text \<open>
  \<^verbatim>\<open>main_module.main()\<close> with \<^verbatim>\<open>OUT_DIR\<close> naming the directory \<open>d\<close> of the output
  directory.
\<close>

definition call_main :: "engine \<Rightarrow> string \<Rightarrow> unit io" where
  "call_main eng d w =
     (let r = eng (module_attrs w) (dir_entries (fs w) d);
          w' = emit (eng_out r) (eng_err r)
                 (w\<lparr>module_attrs := eng_cfg r, fs := AList.update d (Dir (eng_files r)) (fs w)\<rparr>)
      in (case eng_raised r of None \<Rightarrow> (Inr (), w') | Some e \<Rightarrow> (Inl e, w')))"

definition get_attrs :: "engine_cfg io" where
  "get_attrs w = (Inr (module_attrs w), w)"

definition modify_attrs :: "(engine_cfg \<Rightarrow> engine_cfg) \<Rightarrow> unit io" where
  "modify_attrs f w = (Inr (), w\<lparr>module_attrs := f (module_attrs w)\<rparr>)"

definition strftime :: "string io" where
  "strftime w = (Inr (clock w), w)"

definition getattr_or :: "pyval \<Rightarrow> pyval option \<Rightarrow> pyval" where
  "getattr_or d a = (case a of None \<Rightarrow> d | Some v \<Rightarrow> v)"

text \<open>
  \<^verbatim>\<open>traceback.format_exc()\<close>: the last line of the trace, the class of the exception
  and its message; the stack frames are not modelled.
\<close>

fun format_exc :: "exn \<Rightarrow> string" where
  "format_exc (Exn c m) = c @ '': '' @ m"
| "format_exc (BaseExn c m) = c @ '': '' @ m"

definition get_capture :: "(string \<times> string) option io" where
  "get_capture w = (Inr (capture w), w)"

definition set_capture :: "(string \<times> string) option \<Rightarrow> unit io" where
  "set_capture c w = (Inr (), w\<lparr>capture := c\<rparr>)"

text \<open>\<^verbatim>\<open>getvalue()\<close> of the two buffers.\<close>

definition getvalue :: "(string \<times> string) option \<Rightarrow> string \<times> string" where
  "getvalue c = (case c of None \<Rightarrow> ([], []) | Some b \<Rightarrow> b)"

definition nl :: string where
  "nl = [CHR 0x0A]"

fun for_each :: "'a list \<Rightarrow> ('a \<Rightarrow> unit io) \<Rightarrow> unit io" where
  "for_each [] body = ret ()"
| "for_each (x # xs) body = seq (body x) (\<lambda>u. for_each xs body)"

section \<open>The run executor\<close>

text \<open>
  \<^verbatim>\<open>run_experiment_for_solver(solver_name, num_slots, output_dir, run_idx)\<close> of
  \<^verbatim>\<open>run_multiple_experiments.py\<close>. What the function prints itself is left out; the
  lines it writes to its log are kept, their Chinese text as English glosses.

  Lines 96--128, the session on the engine's attributes: the three attributes are read
  with \<^verbatim>\<open>getattr(main_module, ..., None)\<close>, overwritten, the entry point is called in
  \<^verbatim>\<open>try ... except Exception ... finally\<close>, and the \<^verbatim>\<open>finally\<close> block writes an
  attribute back \<^verbatim>\<open>if original_... is not None\<close>.
\<close>

definition restore_attrs :: "pyval \<Rightarrow> pyval \<Rightarrow> pyval \<Rightarrow> engine_cfg \<Rightarrow> engine_cfg" where
  "restore_attrs original_out_dir original_slots original_solvers a =
     a\<lparr>OUT_DIR := (if original_out_dir \<noteq> PNone then Some original_out_dir else OUT_DIR a),
       SLOTS := (if original_slots \<noteq> PNone then Some original_slots else SLOTS a),
       SOLVERS_TO_RUN :=
         (if original_solvers \<noteq> PNone then Some original_solvers else SOLVERS_TO_RUN a)\<rparr>"

definition set_run_attrs :: "string \<Rightarrow> int \<Rightarrow> string \<Rightarrow> engine_cfg \<Rightarrow> engine_cfg" where
  "set_run_attrs run_dir num_slots solver_name a =
     a\<lparr>OUT_DIR := Some (PStr run_dir), SLOTS := Some (PNum (of_int num_slots)),
       SOLVERS_TO_RUN := Some (PList [PStr solver_name])\<rparr>"

definition engine_session :: "engine \<Rightarrow> string \<Rightarrow> string \<Rightarrow> int \<Rightarrow> string \<Rightarrow> path \<Rightarrow> unit io" where
  "engine_session main_module rd run_dir num_slots solver_name log_path =
     seq get_attrs (\<lambda>attrs.
       let original_out_dir = getattr_or PNone (OUT_DIR attrs);
           original_slots = getattr_or PNone (SLOTS attrs);
           original_solvers = getattr_or PNone (SOLVERS_TO_RUN attrs)
       in seq (modify_attrs (set_run_attrs run_dir num_slots solver_name)) (\<lambda>u.
            try_finally
              (try_except
                 (seq (call_main main_module rd) (\<lambda>u.
                    append_text log_path [(''main function completed'', [])]))
                 (\<lambda>main_error.
                    append_text log_path
                      [(''main function failed: {}'', [PStr (exn_msg main_error)]),
                       (''Traceback:'', []),
                       (''{}'', [PStr (format_exc main_error)])]))
              (modify_attrs (restore_attrs original_out_dir original_slots original_solvers))))"

text \<open>
  Lines 132--142, the search: every file of the walk is looked at, and
  \<^verbatim>\<open>summary_path\<close> is set anew at each file whose name contains
  \<^verbatim>\<open>summary.json\<close>, so the last such file of the walk is kept.
\<close>

definition list_files :: "string \<Rightarrow> path list io" where
  "list_files rd w = (Inr (walk [rd] (dir_entries (fs w) rd)), w)"

definition find_summary :: "path list \<Rightarrow> path option" where
  "find_summary all_files =
     fold (\<lambda>file_path summary_path.
             if contains ''summary.json'' (last file_path) then Some file_path else summary_path)
          all_files None"

text \<open>
  Lines 151--169, the artifact is read, \<^verbatim>\<open>summary['solver']\<close> and
  \<^verbatim>\<open>summary['run']\<close> are set, and the file is copied to \<^verbatim>\<open>summary.json\<close> of the
  run directory when it is not that file. Item assignment raises on a value that is not a
  dictionary.
\<close>

definition load_summary :: "path \<Rightarrow> string \<Rightarrow> string \<Rightarrow> nat \<Rightarrow> path \<Rightarrow> pydict io" where
  "load_summary summary_path rd solver_name run_idx log_path =
     seq (json_load summary_path) (\<lambda>loaded.
       case loaded of
         PDict d \<Rightarrow>
           (let summary = AList.update ''run'' (PNum (real (run_idx + 1)))
                            (AList.update ''solver'' (PStr solver_name) d)
            in seq (if summary_path \<noteq> [rd, ''summary.json'']
                    then shutil_copy2 summary_path [rd, ''summary.json'']
                    else ret ()) (\<lambda>u.
               seq (append_text log_path [(''read and processed summary.json'', [])]) (\<lambda>u.
               ret summary)))
       | other \<Rightarrow> raise_exn (Exn ''TypeError'' ''object does not support item assignment''))"

text \<open>The two records of lines 180--200 and the record of lines 230--241.\<close>

definition error_summary :: "string \<Rightarrow> nat \<Rightarrow> int \<Rightarrow> string list \<Rightarrow> string \<Rightarrow> pydict" where
  "error_summary solver_name run_idx num_slots all_files timestamp =
     [(''solver'', PStr solver_name),
      (''run'', PNum (real (run_idx + 1))),
      (''num_slots'', PNum (of_int num_slots)),
      (''error'', PStr ''No summary.json generated''),
      (''available_files'', PList (map PStr all_files)),
      (''timestamp'', PStr timestamp)]"

definition basic_summary_partial :: "string \<Rightarrow> int \<Rightarrow> pydict" where
  "basic_summary_partial solver_name num_slots =
     [(''solver'', PStr solver_name),
      (''num_slots'', PNum (of_int num_slots)),
      (''C_mean'', PNum 0),
      (''avg_delay_mean'', PNum 0),
      (''Avg_queue'', PNum 0),
      (''DecisionTime_ms_mean'', PNum 0),
      (''C_mean_avg_delay_ratio'', PNum 0),
      (''status'', PStr ''partial_results''),
      (''error_message'', PStr ''Experiment completed but no full summary available'')]"

definition basic_summary_error :: "string \<Rightarrow> nat \<Rightarrow> int \<Rightarrow> exn \<Rightarrow> pydict" where
  "basic_summary_error solver_name run_idx num_slots e =
     [(''solver'', PStr solver_name),
      (''run'', PNum (real (run_idx + 1))),
      (''num_slots'', PNum (of_int num_slots)),
      (''C_mean'', PNum 0),
      (''avg_delay_mean'', PNum 0),
      (''Avg_queue'', PNum 0),
      (''DecisionTime_ms_mean'', PNum 0),
      (''C_mean_avg_delay_ratio'', PNum 0),
      (''status'', PStr ''error''),
      (''error_message'', PStr (exn_msg e))]"

text \<open>
  Lines 130--211: search, read, and the fallback when nothing was found or reading
  failed. The block is not told whether the entry point raised.
\<close>

definition resolve_artifact :: "string \<Rightarrow> int \<Rightarrow> string \<Rightarrow> nat \<Rightarrow> pydict io" where
  "resolve_artifact solver_name num_slots output_dir run_idx =
     (let rd = run_dir_name (short_name solver_name) run_idx;
          log_path = [rd, ''experiment_log.txt'']
      in seq (list_files rd) (\<lambda>all_files.
         let summary_path = find_summary all_files
         in seq (append_text log_path
                   ((''files found:'', []) # map (\<lambda>f. (''{}'', [PStr (path_str output_dir f)])) all_files))
              (\<lambda>u.
            seq (case summary_path of
                   Some sp \<Rightarrow>
                     try_except
                       (seq (load_summary sp rd solver_name run_idx log_path) (\<lambda>summary.
                          ret (Some summary)))
                       (\<lambda>json_error.
                          seq (append_text log_path
                                 [(''reading summary.json failed: {}'', [PStr (exn_msg json_error)])])
                              (\<lambda>u. ret None))
                 | None \<Rightarrow>
                     seq (append_text log_path [(''warning: no summary.json found'', [])])
                         (\<lambda>u. ret None))
              (\<lambda>returned.
                 case returned of
                   Some summary \<Rightarrow> ret summary
                 | None \<Rightarrow>
                     seq strftime (\<lambda>timestamp.
                     seq (json_dump [rd, ''basic_summary.json'']
                            (PDict (basic_summary_partial solver_name num_slots))) (\<lambda>u.
                     seq (json_dump [rd, ''error_summary.json'']
                            (PDict (error_summary solver_name run_idx num_slots
                                      (map (path_str output_dir) all_files) timestamp))) (\<lambda>u.
                     ret (basic_summary_partial solver_name num_slots))))))))"

text \<open>Lines 213--248, the handler of the outer \<^verbatim>\<open>try\<close>.\<close>

definition error_fallback :: "string \<Rightarrow> int \<Rightarrow> nat \<Rightarrow> exn \<Rightarrow> pydict io" where
  "error_fallback solver_name num_slots run_idx e =
     (let rd = run_dir_name (short_name solver_name) run_idx
      in seq (write_text [rd, ''error.txt'']
                [(''Error: {}'', [PStr (exn_msg e)]),
                 (''Traceback:'', []),
                 (''{}'', [PStr (format_exc e)])]) (\<lambda>u.
         seq (append_text [rd, ''experiment_log.txt'']
                [(''run failed: {}'', [PStr (exn_msg e)]),
                 (''Traceback:'', []),
                 (''{}'', [PStr (format_exc e)])]) (\<lambda>u.
         seq (json_dump [rd, ''basic_summary.json'']
                (PDict (basic_summary_error solver_name run_idx num_slots e))) (\<lambda>u.
         ret (basic_summary_error solver_name run_idx num_slots e)))))"

definition run_experiment_for_solver ::
  "engine option \<Rightarrow> string \<Rightarrow> int \<Rightarrow> string \<Rightarrow> nat \<Rightarrow> pydict io" where
  "run_experiment_for_solver main_mod solver_name num_slots output_dir run_idx =
     (let simple_solver_name = short_name solver_name;
          rd = run_dir_name simple_solver_name run_idx;
          run_dir = path_str output_dir [rd];
          log_path = [rd, ''experiment_log.txt'']
      in seq (os_makedirs [rd]) (\<lambda>u.
         seq (write_text log_path
                [(''start solver: {}'', [PStr solver_name]),
                 (''run index: {}'', [PNum (real (run_idx + 1))]),
                 (''number of slots: {}'', [PNum (of_int num_slots)])]) (\<lambda>u.
         try_except
           (seq (import_main main_mod) (\<lambda>main_module.
            seq (json_dump [rd, ''experiment_config.json'']
                   (PDict [(''OUT_DIR'', PStr run_dir),
                           (''SLOTS'', PNum (of_int num_slots)),
                           (''SOLVERS_TO_RUN'', PList [PStr solver_name])])) (\<lambda>u.
            seq get_attrs (\<lambda>attrs.
            seq (append_text log_path
                   [(''current configuration of the main module:'', []),
                    (''OUT_DIR: {}'', [getattr_or (PStr ''None'') (OUT_DIR attrs)]),
                    (''SLOTS: {}'', [getattr_or (PStr ''None'') (SLOTS attrs)]),
                    (''SOLVERS_TO_RUN: {}'', [getattr_or (PStr ''None'') (SOLVERS_TO_RUN attrs)])])
                (\<lambda>u.
            seq (engine_session main_module rd run_dir num_slots solver_name log_path) (\<lambda>u.
            resolve_artifact solver_name num_slots output_dir run_idx))))))
           (error_fallback solver_name num_slots run_idx))))"

section \<open>The aggregator's exports\<close>

text \<open>
  The loop body of lines 266--342 for one metric. Without data the header is written
  outside any \<^verbatim>\<open>try\<close>; with data the table and its JSON mirror are written in a
  \<^verbatim>\<open>try\<close> whose handler appends a line to \<^verbatim>\<open>error_log.txt\<close>.
\<close>

definition export_metric :: "string \<times> string \<Rightarrow> corpus \<Rightarrow> unit io" where
  "export_metric metric results =
     (let metric_name = fst metric;
          metric_key = snd metric;
          table = metric_table metric_key results;
          csv_file_path = [''metrics'', metric_name @ ''.csv'']
      in if \<not> has_data metric_key results
         then fs_step (\<lambda>es. write_at es csv_file_path (Csv (fst table) (snd table)))
         else try_except
                (seq (fs_step (\<lambda>es. write_at es csv_file_path (Csv (fst table) (snd table))))
                   (\<lambda>u. json_dump [''metrics'', metric_name @ ''.json'']
                          (PDict (map (\<lambda>item. (fst item, PList (snd item)))
                                    (collect_metric_data metric_key results)))))
                (\<lambda>e. seq strftime (\<lambda>timestamp.
                   append_text [''error_log.txt'']
                     [(''{} - saving metric {} failed: {}'',
                       [PStr timestamp, PStr metric_name, PStr (exn_msg e)])])))"

text \<open>
  \<^verbatim>\<open>collect_and_save_metrics\<close>: the directory \<^verbatim>\<open>metrics\<close>, the five tables, and the
  summary report, which holds what was written when an exception ended it.
\<close>

definition collect_and_save_metrics :: "corpus \<Rightarrow> unit io" where
  "collect_and_save_metrics results =
     seq (os_makedirs [''metrics'']) (\<lambda>u.
     seq (for_each METRICS_TO_COLLECT (\<lambda>metric. export_metric metric results)) (\<lambda>u.
     try_except
       (fs_step (\<lambda>es. write_at es [''metrics'', ''metrics_summary.txt'']
                        (Report (fst (metrics_summary results)))))
       (\<lambda>e. ret ())))"

section \<open>The batch coordinator\<close>

text \<open>
  \<^verbatim>\<open>main\<close> of \<^verbatim>\<open>run_multiple_experiments.py\<close> from line 435 on: the solver list,
  the number of runs, the number of slots and the output directory are given, and the
  output directory exists. The records of lines 478--487 and 508--517:
\<close>

definition run_error_result :: "string \<Rightarrow> nat \<Rightarrow> int \<Rightarrow> exn \<Rightarrow> pydict" where
  "run_error_result solver_name run_idx num_slots run_error =
     [(''solver'', PStr solver_name),
      (''run'', PNum (real (run_idx + 1))),
      (''num_slots'', PNum (of_int num_slots)),
      (''status'', PStr ''error''),
      (''error_message'', PStr (exn_msg run_error)),
      (''C_mean'', PNum 0),
      (''avg_delay_mean'', PNum 0),
      (''DecisionTime_ms_mean'', PNum 0)]"

definition critical_error_result :: "string \<Rightarrow> int \<Rightarrow> exn \<Rightarrow> pydict" where
  "critical_error_result solver_name num_slots solver_error =
     [(''solver'', PStr solver_name),
      (''run'', PNum 0),
      (''num_slots'', PNum (of_int num_slots)),
      (''status'', PStr ''critical_error''),
      (''error_message'', PStr (exn_msg solver_error)),
      (''C_mean'', PNum 0),
      (''avg_delay_mean'', PNum 0),
      (''DecisionTime_ms_mean'', PNum 0)]"

text \<open>
  \<^verbatim>\<open>{solver_name.split('.')[-1]: [] for solver_name in solvers}\<close>,
  \<^verbatim>\<open>all_results[simple_name].append(r)\<close>, \<^verbatim>\<open>solver_results.append(r)\<close> and
  \<^verbatim>\<open>import traceback\<close>.
\<close>

definition init_results :: "string list \<Rightarrow> corpus" where
  "init_results solvers =
     fold (\<lambda>solver_name d. AList.update (short_name solver_name) [] d) solvers []"

definition corpus_append :: "string \<Rightarrow> pydict \<Rightarrow> unit io" where
  "corpus_append simple_name r w =
     (case map_of (all_results w) simple_name of
        None \<Rightarrow> (Inl (Exn ''KeyError'' simple_name), w)
      | Some rs \<Rightarrow> (Inr (), w\<lparr>all_results := AList.update simple_name (rs @ [r]) (all_results w)\<rparr>))"

definition solver_results_append :: "pydict \<Rightarrow> unit io" where
  "solver_results_append r w = (Inr (), w\<lparr>solver_results := solver_results w @ [r]\<rparr>)"

definition import_traceback :: "unit io" where
  "import_traceback w = (Inr (), w\<lparr>traceback_bound := True\<rparr>)"

definition lift :: "exn + 'a \<Rightarrow> 'a io" where
  "lift r w = (r, w)"

text \<open>Lines 451--497, one run of one solver.\<close>

definition run_once :: "engine option \<Rightarrow> string \<Rightarrow> int \<Rightarrow> string \<Rightarrow> nat \<Rightarrow> unit io" where
  "run_once main_mod solver_name num_slots output_dir run_idx =
     (let simple_name = short_name solver_name
      in try_except
           (seq (run_experiment_for_solver main_mod solver_name num_slots output_dir run_idx)
              (\<lambda>run_result.
                 if run_result \<noteq> []
                 then seq (lift (inject_ratio run_result)) (\<lambda>run_result.
                      seq (solver_results_append run_result) (\<lambda>u.
                      corpus_append simple_name run_result))
                 else ret ()))
           (\<lambda>run_error.
              seq (solver_results_append
                     (run_error_result solver_name run_idx num_slots run_error)) (\<lambda>u.
              seq (corpus_append simple_name
                     (run_error_result solver_name run_idx num_slots run_error)) (\<lambda>u.
              seq strftime (\<lambda>timestamp.
              seq (write_text [simple_name @ ''_run_'' @ show_nat (run_idx + 1) @ ''_error.log'']
                     [(''{} - run failed: {}'', [PStr timestamp, PStr (exn_msg run_error)]),
                      (''Traceback:'', []),
                      (''{}'', [PStr (format_exc run_error)])]) (\<lambda>u.
              import_traceback))))))"

text \<open>Lines 440--529, one solver.\<close>

definition solver_once :: "engine option \<Rightarrow> nat \<Rightarrow> int \<Rightarrow> string \<Rightarrow> string \<Rightarrow> unit io" where
  "solver_once main_mod num_runs num_slots output_dir solver_name =
     (let simple_name = short_name solver_name
      in try_except
           (seq (\<lambda>w. (Inr (), w\<lparr>solver_results := []\<rparr>)) (\<lambda>u.
            seq (for_each [0..<num_runs] (run_once main_mod solver_name num_slots output_dir))
              (\<lambda>u.
            seq (\<lambda>w. (Inr (solver_results w), w)) (\<lambda>results.
              if results \<noteq> []
              then json_dump [simple_name @ ''_summary.json''] (PList (map PDict results))
              else ret ()))))
           (\<lambda>solver_error.
              seq (corpus_append simple_name
                     (critical_error_result solver_name num_slots solver_error)) (\<lambda>u.
              seq strftime (\<lambda>timestamp.
              seq (write_text [simple_name @ ''_critical_error.log'']
                     [(''{} - solver failed: {}'', [PStr timestamp, PStr (exn_msg solver_error)]),
                      (''Traceback:'', []),
                      (''{}'', [PStr (format_exc solver_error)])]) (\<lambda>u.
              import_traceback)))))"

text \<open>
  Lines 532--643, the pass after all solvers. A solver counts as executed when some entry
  of the output directory starts with its short name, contains \<^verbatim>\<open>_run_\<close> and has a
  \<^verbatim>\<open>summary.json\<close> in it. For a solver that does not, the entry point is run once
  more, with the console captured. \<^verbatim>\<open>print\<close> of the coordinator is modelled where
  \<^verbatim>\<open>sys.stdout\<close> is redirected and left out elsewhere.
\<close>

definition solver_executed :: "entries \<Rightarrow> string \<Rightarrow> bool" where
  "solver_executed es solver_short_name =
     list_ex (\<lambda>entry. prefix solver_short_name (fst entry) \<and> contains ''_run_'' (fst entry)
                \<and> lookup es [fst entry, ''summary.json''] \<noteq> None) es"

definition find_exact :: "path list \<Rightarrow> path option" where
  "find_exact all_files = find (\<lambda>file_path. last file_path = ''summary.json'') all_files"

definition output_text :: "string \<times> string \<Rightarrow> line list" where
  "output_text bufs =
     [(''=== STDOUT ==='', []), (''{}'', [PStr (fst bufs)]),
      (''=== STDERR ==='', []), (''{}'', [PStr (snd bufs)])]"

definition solver_dir_name :: "string \<Rightarrow> string" where
  "solver_dir_name solver_name = map (\<lambda>c. if c = CHR ''.'' then CHR ''_'' else c) solver_name"

definition read_attrs :: "(pyval \<times> pyval \<times> pyval) io" where
  "read_attrs w =
     (case OUT_DIR (module_attrs w) of
        None \<Rightarrow> (Inl (Exn ''AttributeError'' ''OUT_DIR''), w)
      | Some out_dir \<Rightarrow>
          (case SLOTS (module_attrs w) of
             None \<Rightarrow> (Inl (Exn ''AttributeError'' ''SLOTS''), w)
           | Some slots \<Rightarrow>
               (case SOLVERS_TO_RUN (module_attrs w) of
                  None \<Rightarrow> (Inl (Exn ''AttributeError'' ''SOLVERS_TO_RUN''), w)
                | Some solvers \<Rightarrow> (Inr (out_dir, slots, solvers), w))))"

definition write_attrs :: "pyval \<times> pyval \<times> pyval \<Rightarrow> unit io" where
  "write_attrs original =
     modify_attrs (\<lambda>a. a\<lparr>OUT_DIR := Some (fst original), SLOTS := Some (fst (snd original)),
                          SOLVERS_TO_RUN := Some (snd (snd original))\<rparr>)"

definition log_traceback :: "path \<Rightarrow> exn \<Rightarrow> unit io" where
  "log_traceback log_path e w =
     (if traceback_bound w
      then append_text log_path
             [(''error: {}'', [PStr (exn_msg e)]), (''Traceback:'', []),
              (''{}'', [PStr (format_exc e)])] w
      else seq (append_text log_path [(''error: {}'', [PStr (exn_msg e)]), (''Traceback:'', [])])
             (\<lambda>u. raise_exn (Exn ''UnboundLocalError'' ''traceback'')) w)"

text \<open>
  Lines 586--617: the entry point is called with the console captured; the
  \<^verbatim>\<open>finally\<close> block puts the streams back, writes the three attributes back as they
  were read before the call, and writes the two buffers to the output file.
\<close>

definition direct_session ::
  "engine \<Rightarrow> string \<Rightarrow> path \<Rightarrow> string \<Rightarrow> path \<Rightarrow> (string \<times> string) option
     \<Rightarrow> pyval \<times> pyval \<times> pyval \<Rightarrow> unit io" where
  "direct_session main_module rd log_path solver_short_name solver_dir old_streams original =
     try_finally
       (try_except
          (seq (call_main main_module rd) (\<lambda>u.
           seq (py_print (solver_short_name @ '' executed successfully'' @ nl)) (\<lambda>u.
           append_text log_path [(''execution completed'', [])])))
          (\<lambda>e.
             seq (py_print (''error: '' @ exn_msg e @ nl)) (\<lambda>u.
             log_traceback log_path e)))
       (seq get_capture (\<lambda>buffers.
        seq (set_capture old_streams) (\<lambda>u.
        seq (write_attrs original) (\<lambda>u.
        try_except
          (write_text (solver_dir @ [solver_short_name @ ''_output.txt''])
             (output_text (getvalue buffers)))
          (\<lambda>e. ret ())))))"

definition direct_execution :: "engine option \<Rightarrow> string \<Rightarrow> int \<Rightarrow> string \<Rightarrow> unit io" where
  "direct_execution main_mod solver_name num_slots output_dir =
     (let solver_short_name = short_name solver_name;
          rd = solver_short_name @ ''_run_1'';
          run_dir = path_str output_dir [rd];
          log_path = [rd, ''direct_execution_log.txt''];
          solver_dir = [rd, solver_dir_name solver_name]
      in seq (os_makedirs [rd]) (\<lambda>u.
         seq strftime (\<lambda>timestamp.
         seq (write_text log_path
                [(''direct execution of {} started at {}'', [PStr solver_name, PStr timestamp])])
             (\<lambda>u.
         seq (import_main main_mod) (\<lambda>main_module.
         seq read_attrs (\<lambda>original.
         seq (modify_attrs (set_run_attrs run_dir num_slots solver_name)) (\<lambda>u.
         seq (os_makedirs solver_dir) (\<lambda>u.
         seq get_capture (\<lambda>old_streams.
         seq (set_capture (Some ([], []))) (\<lambda>u.
         seq (direct_session main_module rd log_path solver_short_name solver_dir old_streams
                original)
             (\<lambda>u.
         seq (list_files rd) (\<lambda>all_files.
           case find_exact all_files of
             None \<Rightarrow> ret ()
           | Some summary_path \<Rightarrow>
               try_except
                 (seq (json_load summary_path) (\<lambda>summary_data.
                    json_dump [rd, ''summary.json''] summary_data))
                 (\<lambda>e. ret ())))))))))))))"

definition reconcile :: "engine option \<Rightarrow> int \<Rightarrow> string \<Rightarrow> string \<Rightarrow> unit io" where
  "reconcile main_mod num_slots output_dir solver_name w =
     (if solver_executed (fs w) (short_name solver_name) then (Inr (), w)
      else try_except (direct_execution main_mod solver_name num_slots output_dir)
             (\<lambda>e. import_traceback) w)"

text \<open>
  The whole batch: the corpus is made, the solvers run, the pass above, the exports when
  at least one record was collected (lines 654--667), and the configuration record of
  the batch.
\<close>

definition total_results :: "corpus \<Rightarrow> nat" where
  "total_results results = sum_list (map (\<lambda>item. length (snd item)) results)"

definition main :: "engine option \<Rightarrow> string list \<Rightarrow> nat \<Rightarrow> int \<Rightarrow> string \<Rightarrow> unit io" where
  "main main_mod solvers num_runs num_slots output_dir =
     seq (\<lambda>w. (Inr (), w\<lparr>all_results := init_results solvers\<rparr>)) (\<lambda>u.
     seq (for_each solvers (solver_once main_mod num_runs num_slots output_dir)) (\<lambda>u.
     seq (for_each solvers (reconcile main_mod num_slots output_dir)) (\<lambda>u.
     seq (\<lambda>w. (Inr (all_results w), w)) (\<lambda>results.
     seq (if total_results results = 0 then ret ()
          else try_except (collect_and_save_metrics results)
                 (\<lambda>e. seq strftime (\<lambda>timestamp.
                    write_text [''error_log.txt'']
                      [(''{} - collecting metrics failed: {}'',
                        [PStr timestamp, PStr (exn_msg e)])]))) (\<lambda>u.
     seq strftime (\<lambda>timestamp.
     json_dump [''experiment_config.json'']
       (PDict [(''num_solvers'', PNum (real (length solvers))),
               (''solvers'', PList (map PStr solvers)),
               (''num_runs_per_solver'', PNum (real num_runs)),
               (''num_slots_per_experiment'', PNum (of_int num_slots)),
               (''total_runs'', PNum (real (length solvers * num_runs))),
               (''total_results_collected'', PNum (real (total_results results))),
               (''output_dir'', PStr output_dir),
               (''metrics_collected'', PList (map (\<lambda>metric. PStr (fst metric)) METRICS_TO_COLLECT)),
               (''timestamp'', PStr timestamp)])))))))"

section \<open>The single-solver script\<close>

text \<open>
  \<^verbatim>\<open>run_solver(solver_name, num_slots, output_dir, run_idx)\<close> of
  \<^verbatim>\<open>run_bargain_match.py\<close>. It sets the three attributes without reading them first
  and does not write them back; it redirects \<^verbatim>\<open>sys.stdout\<close> and \<^verbatim>\<open>sys.stderr\<close>
  around the entry point and writes the two buffers to a file in its \<^verbatim>\<open>finally\<close>
  block (lines 88--125, \<open>captured_call\<close>). Its search wants a file named \<^verbatim>\<open>summary.json\<close> exactly and stops at the first
  directory of the walk that has one. Python strings are lists of bytes here, so no text
  fails to encode.
\<close>

definition captured_call ::
  "engine \<Rightarrow> string \<Rightarrow> path \<Rightarrow> string \<Rightarrow> path \<Rightarrow> (string \<times> string) option \<Rightarrow> unit io" where
  "captured_call main_module rd log_path simple_name solver_dir old_streams =
     try_finally
       (try_except
          (seq (call_main main_module rd) (\<lambda>u.
             py_print (''  Main function executed successfully'' @ nl)))
          (\<lambda>e.
             seq (py_print (''  Error executing main function: '' @ exn_msg e @ nl)) (\<lambda>u.
             seq strftime (\<lambda>timestamp.
             append_text log_path
               [(''{} - {}'',
                 [PStr timestamp, PStr (''  Error executing main function: '' @ exn_msg e)]),
                (''Traceback:'', []),
                (''{}'', [PStr (format_exc e)])]))))
       (seq get_capture (\<lambda>buffers.
        seq (set_capture old_streams) (\<lambda>u.
        try_except
          (write_text (solver_dir @ [simple_name @ ''_output.txt''])
             (output_text (getvalue buffers)))
          (\<lambda>e. ret ()))))"

definition run_solver :: "engine option \<Rightarrow> string \<Rightarrow> int \<Rightarrow> string \<Rightarrow> nat \<Rightarrow> pyval io" where
  "run_solver main_mod solver_name num_slots output_dir run_idx =
     (let simple_name = short_name solver_name;
          rd = run_dir_name simple_name run_idx;
          run_dir = path_str output_dir [rd];
          log_path = [rd, ''experiment_log.txt''];
          solver_dir = [rd, solver_dir_name solver_name]
      in seq (os_makedirs [rd]) (\<lambda>u.
         try_except
           (seq (import_main main_mod) (\<lambda>main_module.
            seq get_attrs (\<lambda>attrs.
            seq strftime (\<lambda>timestamp.
            let main_config =
                  PDict [(''OUT_DIR'', getattr_or (PStr ''logs'') (OUT_DIR attrs)),
                         (''SLOTS'', getattr_or (PNum (of_int num_slots)) (SLOTS attrs)),
                         (''SOLVERS_TO_RUN'', getattr_or (PList []) (SOLVERS_TO_RUN attrs))]
            in
            seq (json_dump [rd, ''experiment_config.json'']
                   (PDict [(''solver'', PStr solver_name),
                           (''num_slots'', PNum (of_int num_slots)),
                           (''run_idx'', PNum (real run_idx)),
                           (''start_time'', PStr timestamp),
                           (''main_config'', main_config)])) (\<lambda>u.
            seq (write_text log_path
                   [(''{} - Starting solver {}'', [PStr timestamp, PStr solver_name]),
                    (''Run index: {}'', [PNum (real (run_idx + 1))]),
                    (''Number of slots: {}'', [PNum (of_int num_slots)]),
                    (''Main module config: {}'', [main_config])]) (\<lambda>u.
            seq (modify_attrs (set_run_attrs run_dir num_slots solver_name)) (\<lambda>u.
            seq (os_makedirs solver_dir) (\<lambda>u.
            seq get_capture (\<lambda>old_streams.
            seq (set_capture (Some ([], []))) (\<lambda>u.
            seq (captured_call main_module rd log_path simple_name solver_dir old_streams)
                (\<lambda>u.
            seq (list_files rd) (\<lambda>all_files.
              case find_exact all_files of
                Some summary_path \<Rightarrow>
                  seq (json_load summary_path) (\<lambda>summary_data.
                  seq (json_dump [rd, ''summary.json''] summary_data) (\<lambda>u.
                  ret summary_data))
              | None \<Rightarrow>
                  (seq (\<lambda>w. (Inr (elapsed w), w)) (\<lambda>seconds.
                   let basic_summary =
                         PDict [(''solver'', PStr solver_name),
                                (''run'', PNum (real (run_idx + 1))),
                                (''num_slots'', PNum (of_int num_slots)),
                                (''status'', PStr ''completed''),
                                (''message'',
                                 PStr ''No detailed results generated, but solver executed''),
                                (''execution_time_s'', PNum seconds)]
                   in seq (json_dump [rd, ''summary.json''] basic_summary) (\<lambda>u.
                      ret basic_summary)))))))))))))))
           (\<lambda>e.
              seq strftime (\<lambda>timestamp.
              seq (write_text [rd, ''error.txt'']
                     [(''{} - {}'',
                       [PStr timestamp, PStr (''  Critical error running solver: '' @ exn_msg e)]),
                      (''Traceback:'', []),
                      (''{}'', [PStr (format_exc e)])]) (\<lambda>u.
              seq (\<lambda>w. (Inr (elapsed w), w)) (\<lambda>seconds.
              ret (PDict [(''solver'', PStr solver_name),
                          (''run'', PNum (real (run_idx + 1))),
                          (''num_slots'', PNum (of_int num_slots)),
                          (''status'', PStr ''error''),
                          (''error_message'', PStr (exn_msg e)),
                          (''execution_time_s'', PNum seconds)])))))))"

section \<open>Example inputs\<close>

text \<open>
  A state in which the engine module has its three attributes and the output directory is
  empty, the same state with \<^verbatim>\<open>OUT_DIR\<close> missing from the module, and three entry
  points: one that prints a line and returns without writing a file, one that prints a
  line and raises, and one that raises for the solver \<^verbatim>\<open>NOMA_VEC_Solver\<close> and for
  every other solver writes \<^verbatim>\<open>summary.json\<close> into a sub-directory of its output
  directory.
\<close>

definition start_world :: world where
  "start_world =
     \<lparr>module_attrs =
        \<lparr>OUT_DIR = Some (PStr ''logs''), SLOTS = Some (PNum 50),
         SOLVERS_TO_RUN = Some (PList [PStr ''solvers.OLMA_Solver_perfect.OLMA_Solver''])\<rparr>,
      fs = [], console_out = [], console_err = [], capture = None,
      clock = ''2024-01-01 00:00:00'', elapsed = 1,
      all_results = [], solver_results = [], traceback_bound = False\<rparr>"

definition bare_world :: world where
  "bare_world =
     start_world\<lparr>module_attrs :=
       \<lparr>OUT_DIR = None, SLOTS = Some (PNum 50),
        SOLVERS_TO_RUN = Some (PList [PStr ''solvers.OLMA_Solver_perfect.OLMA_Solver''])\<rparr>\<rparr>"

definition silent_engine :: engine where
  "silent_engine cfg es =
     \<lparr>eng_raised = None, eng_cfg = cfg, eng_files = es,
      eng_out = ''simulation done'', eng_err = []\<rparr>"

definition failing_engine :: engine where
  "failing_engine cfg es =
     \<lparr>eng_raised = Some (Exn ''RuntimeError'' ''solver failed''), eng_cfg = cfg,
      eng_files = es, eng_out = ''simulation started'', eng_err = []\<rparr>"

definition mixed_engine :: engine where
  "mixed_engine cfg es =
     (if SOLVERS_TO_RUN cfg = Some (PList [PStr ''solvers.NOMA_VEC_Solver.NOMA_VEC_Solver''])
      then \<lparr>eng_raised = Some (Exn ''RuntimeError'' ''solver failed''), eng_cfg = cfg,
            eng_files = es, eng_out = [], eng_err = []\<rparr>
      else \<lparr>eng_raised = None, eng_cfg = cfg,
            eng_files =
              AList.update ''results''
                (Dir [(''summary.json'',
                       File (Json (PDict [(''C_mean'', PNum 12.5), (''avg_delay_mean'', PNum 2.5),
                                          (''Avg_queue'', PNum 3),
                                          (''DecisionTime_ms_mean'', PNum 1.5)])))]) es,
            eng_out = [], eng_err = []\<rparr>)"

text \<open>
  The same state when the path of the first run directory of \<^verbatim>\<open>OLMA_Solver\<close> is
  taken by a file, with the corpus as the coordinator makes it for that solver.
\<close>

definition blocked_world :: world where
  "blocked_world =
     start_world\<lparr>fs := [(''OLMA_Solver_run_1'', File (Text []))],
                 all_results := [(''OLMA_Solver'', [])]\<rparr>"

text \<open>Predicates the properties below are stated with.\<close>

fun is_file :: "string \<times> node \<Rightarrow> bool" where
  "is_file (n, File c) = True"
| "is_file (n, Dir sub) = False"

definition writable :: "entries \<Rightarrow> string \<Rightarrow> bool" where
  "writable es name = (case map_of es name of Some (Dir sub) \<Rightarrow> False | other \<Rightarrow> True)"

text \<open>
  The files the executor writes into a run directory can be written: none of their names
  is the name of a sub-directory.
\<close>

definition harness_writable :: "entries \<Rightarrow> bool" where
  "harness_writable es =
     (writable es ''experiment_log.txt'' \<and> writable es ''basic_summary.json''
      \<and> writable es ''error_summary.json'')"

text \<open>No file below a directory has a name that contains \<^verbatim>\<open>summary.json\<close>.\<close>

definition matches :: "path \<Rightarrow> bool" where
  "matches file_path = contains ''summary.json'' (last file_path)"

definition no_summary :: "entries \<Rightarrow> bool" where
  "no_summary es = list_all (\<lambda>p. \<not> matches p) (walk [] es)"

definition harness_ok :: "entries \<Rightarrow> bool" where
  "harness_ok es = (harness_writable es \<and> no_summary es)"

fun is_json_dict :: "fcontent \<Rightarrow> bool" where
  "is_json_dict (Json (PDict d)) = True"
| "is_json_dict other = False"

text \<open>The lines the session writes to the log after the entry point returned or raised.\<close>

fun session_log :: "exn option \<Rightarrow> line list" where
  "session_log None = [(''main function completed'', [])]"
| "session_log (Some main_error) =
     [(''main function failed: {}'', [PStr (exn_msg main_error)]),
      (''Traceback:'', []),
      (''{}'', [PStr (format_exc main_error)])]"

text \<open>
  A statement keeps a property of the engine's attributes when the property holds after
  it whenever it held before, whether the statement returned or raised. A property is
  sticky when it survives the \<^verbatim>\<open>finally\<close> block of the session: it holds of the
  attributes written back whenever it held of the attributes read.
\<close>

definition keeps :: "(engine_cfg \<Rightarrow> bool) \<Rightarrow> 'a io \<Rightarrow> bool" where
  "keeps P m = (\<forall>w. P (module_attrs w) \<longrightarrow> P (module_attrs (snd (m w))))"

definition sticky :: "(engine_cfg \<Rightarrow> bool) \<Rightarrow> bool" where
  "sticky P = (\<forall>a b. P a \<longrightarrow>
     P (restore_attrs (getattr_or PNone (OUT_DIR a)) (getattr_or PNone (SLOTS a))
          (getattr_or PNone (SOLVERS_TO_RUN a)) b))"

text \<open>
  What \<^verbatim>\<open>run_solver\<close> itself prints while the streams are redirected, after the entry
  point returned or raised.
\<close>

fun scope_message :: "exn option \<Rightarrow> string" where
  "scope_message None = ''  Main function executed successfully'' @ nl"
| "scope_message (Some e) =
     (if is_Exception e then ''  Error executing main function: '' @ exn_msg e @ nl else [])"

fun raises_only_Exception :: "exn option \<Rightarrow> bool" where
  "raises_only_Exception None = True"
| "raises_only_Exception (Some e) = is_Exception e"

text \<open>
  The state of the output directory the coordinator starts from and keeps. A name ends in
  a digit when it is the name of a run directory, \<^verbatim>\<open>f"{simple_name}_run_{k}"\<close>. Every
  sub-directory of the output directory is named like a run directory, except
  \<^verbatim>\<open>metrics\<close>, which holds files only; no file is named \<^verbatim>\<open>metrics\<close>. So none of
  the files the coordinator writes into the output directory has the name of a directory.
\<close>

definition digit_end :: "string \<Rightarrow> bool" where
  "digit_end n = (n \<noteq> [] \<and> last n \<in> set ''0123456789'')"

fun entry_ok :: "string \<times> node \<Rightarrow> bool" where
  "entry_ok (n, File c) = (n \<noteq> ''metrics'')"
| "entry_ok (n, Dir sub) = (digit_end n \<or> (n = ''metrics'' \<and> list_all is_file sub))"

definition output_dir_ok :: "entries \<Rightarrow> bool" where
  "output_dir_ok es = list_all entry_ok es"

text \<open>\<^verbatim>\<open>all_results.get(name, [])\<close>: the records the corpus holds for a short name.\<close>

definition records :: "corpus \<Rightarrow> string \<Rightarrow> pydict list" where
  "records c n = (case map_of c n of None \<Rightarrow> [] | Some rs \<Rightarrow> rs)"

text \<open>
  The engine module, when it can be imported, has an entry point that raises nothing but
  exceptions deriving from \<^verbatim>\<open>Exception\<close>.
\<close>

definition polite :: "engine option \<Rightarrow> bool" where
  "polite main_mod =
     (\<forall>eng cfg es. main_mod = Some eng \<longrightarrow> raises_only_Exception (eng_raised (eng cfg es)))"

text \<open>
  A statement is safe for a corpus when, from a state with the output directory as above
  and that corpus, it leaves such a state and raises nothing but exceptions deriving from
  \<^verbatim>\<open>Exception\<close>; it yields a property when every value it returns has it.
\<close>

definition frame :: "corpus \<Rightarrow> world \<Rightarrow> bool" where
  "frame c w = (output_dir_ok (fs w) \<and> all_results w = c)"

definition safe :: "corpus \<Rightarrow> 'a io \<Rightarrow> bool" where
  "safe c m =
     (\<forall>w. frame c w \<longrightarrow> frame c (snd (m w)) \<and> (\<forall>e. fst (m w) = Inl e \<longrightarrow> is_Exception e))"

definition yields :: "('a \<Rightarrow> bool) \<Rightarrow> 'a io \<Rightarrow> bool" where
  "yields Q m = (\<forall>w x. fst (m w) = Inr x \<longrightarrow> Q x)"

section \<open>Executing the model\<close>

text \<open>
  Rules that run a statement of the model on a state it is given: the congruence rules
  keep the simplifier out of a continuation until its state is known.
\<close>

lemma map_of_update_same: "map_of (AList.update k v al) k = Some v"
  by (simp add: update_conv')

lemma map_of_update_other: "k' \<noteq> k \<Longrightarrow> map_of (AList.update k v al) k' = map_of al k'"
  by (simp add: update_conv')

declare write_at.simps [simp del] lookup.simps [simp del] makedirs_at.simps [simp del]

lemma seq_weak_cong: "w = w' \<Longrightarrow> seq m f w = seq m f w'" by simp
lemma try_except_weak_cong: "w = w' \<Longrightarrow> try_except m h w = try_except m h w'" by simp
lemma try_finally_weak_cong: "w = w' \<Longrightarrow> try_finally m h w = try_finally m h w'" by simp
lemmas io_congs = seq_weak_cong try_except_weak_cong try_finally_weak_cong

lemmas io_defs = seq_def ret_def raise_exn_def try_except_def try_finally_def fs_step_def
  os_makedirs_def write_text_def append_text_def json_dump_def shutil_copy2_def json_load_def
  import_main_def call_main_def get_attrs_def modify_attrs_def strftime_def list_files_def
  append_at_def bnd_def emit_def dir_entries_def

subsection \<open>File operations\<close>

lemma write_at_file:
  "writable es name \<Longrightarrow> write_at es [name] c = Inr (AList.update name (File c) es)"
  by (auto simp: writable_def write_at.simps split: option.splits node.splits)

lemma write_at_dir:
  "map_of es d = Some (Dir sub) \<Longrightarrow> p \<noteq> [] \<Longrightarrow>
   write_at es (d # p) c = bnd (write_at sub p c) (\<lambda>sub'. Inr (AList.update d (Dir sub') es))"
  by (simp add: write_at.simps)

lemma write_at_blocked:
  "map_of es name = Some (Dir sub) \<Longrightarrow> write_at es [name] c = Inl (Exn ''IsADirectoryError'' name)"
  by (simp add: write_at.simps)

lemma lookup_dir: "map_of es d = Some (Dir sub) \<Longrightarrow> lookup es (d # p) = lookup sub p"
  by (simp add: lookup.simps)

lemma lookup_file: "map_of es name = Some (File c) \<Longrightarrow> lookup es [name] = Some (File c)"
  by (simp add: lookup.simps)

lemma lookup_single:
  "lookup es [name] = (case map_of es name of None \<Rightarrow> None | Some (File c) \<Rightarrow> Some (File c)
                        | Some (Dir sub) \<Rightarrow> Some (Dir sub))"
  by (simp add: lookup.simps split: option.splits node.splits)

lemma lookup_absent: "map_of es d = None \<Longrightarrow> lookup es (d # p) = None"
  by (simp add: lookup.simps)

lemma makedirs_fresh: "map_of es d = None \<Longrightarrow> makedirs_at es [d] = Inr (AList.update d (Dir []) es)"
  by (simp add: makedirs_at.simps bnd_def)

lemma update_same_value: "map_of es k = Some v \<Longrightarrow> AList.update k v es = es"
  by (induction es) (auto split: if_splits)

lemma makedirs_existing: "map_of es d = Some (Dir sub) \<Longrightarrow> makedirs_at es [d] = Inr es"
  by (simp add: makedirs_at.simps bnd_def update_same_value)

lemma makedirs_blocked:
  "map_of es d = Some (File c) \<Longrightarrow> makedirs_at es [d] = Inl (Exn ''FileExistsError'' d)"
  by (simp add: makedirs_at.simps)

lemma writable_update [simp]:
  "writable (AList.update n (File c) es) n' = (n' = n \<or> writable es n')"
  by (auto simp: writable_def update_conv' split: option.splits node.splits)

lemma writable_Nil [simp]: "writable [] n"
  by (simp add: writable_def)

lemma writable_Cons_File [simp]: "writable ((k, File c) # es) n = (n = k \<or> writable es n)"
  by (auto simp: writable_def)

subsection \<open>The walk\<close>

lemma files_of_update:
  "list_all P (files_of h es) \<Longrightarrow> P (h @ [n]) \<Longrightarrow>
   list_all P (files_of h (AList.update n (File c) es))"
  by (induction h es rule: files_of.induct) auto

lemma walk_dirs_update:
  "list_all P (walk_dirs h es) \<Longrightarrow> list_all P (walk_dirs h (AList.update n (File c) es))"
proof (induction es)
  case Nil
  show ?case by simp
next
  case (Cons e es)
  obtain k x where e: "e = (k, x)" by (cases e)
  show ?case using Cons by (cases x) (auto simp: e)
qed

lemma walk_update:
  "list_all P (walk h es) \<Longrightarrow> P (h @ [n]) \<Longrightarrow> list_all P (walk h (AList.update n (File c) es))"
  by (simp add: files_of_update walk_dirs_update)

lemma files_of_shift: "files_of (g @ h) es = map ((@) g) (files_of h es)"
  by (induction h es rule: files_of.induct) auto

lemma walk_shift:
  "walk (g @ h) es = map ((@) g) (walk h es)"
  "walk_dirs (g @ h) es = map ((@) g) (walk_dirs h es)"
proof (induction h es and h es rule: walk_walk_dirs.induct)
  case (1 here es)
  then show ?case by (simp add: files_of_shift)
next
  case (2 here)
  show ?case by simp
next
  case (3 here name c es)
  then show ?case by simp
next
  case (4 here name sub es)
  then show ?case by simp
qed

lemma files_of_proper: "p \<in> set (files_of h es) \<Longrightarrow> \<exists>n. p = h @ [n]"
  by (induction h es rule: files_of.induct) auto

lemma walk_proper:
  "p \<in> set (walk h es) \<Longrightarrow> \<exists>q. p = h @ q \<and> q \<noteq> []"
  "p \<in> set (walk_dirs h es) \<Longrightarrow> \<exists>q. p = h @ q \<and> q \<noteq> []"
proof (induction h es and h es arbitrary: p and p rule: walk_walk_dirs.induct)
  case (1 here es)
  then show ?case using files_of_proper [of p here es] by auto
next
  case (2 here)
  then show ?case by simp
next
  case (3 here name c es)
  then show ?case by simp
next
  case (4 here name sub es)
  from "4.prems" have "p \<in> set (walk (here @ [name]) sub) \<or> p \<in> set (walk_dirs here es)"
    by auto
  then show ?case
  proof
    assume "p \<in> set (walk (here @ [name]) sub)"
    from "4.IH"(1) [OF this] obtain q where "p = (here @ [name]) @ q" by blast
    then show ?thesis by auto
  next
    assume "p \<in> set (walk_dirs here es)"
    from "4.IH"(2) [OF this] show ?thesis .
  qed
qed

lemma matches_shift: "q \<noteq> [] \<Longrightarrow> matches (h @ q) = matches q"
  by (simp add: matches_def)

lemma no_summary_walk: "list_all (\<lambda>p. \<not> matches p) (walk h es) = no_summary es"
proof -
  have "walk h es = map ((@) h) (walk [] es)"
    using walk_shift(1) [of h "[]" es] by simp
  moreover have "\<forall>q \<in> set (walk [] es). q \<noteq> []"
    using walk_proper(1) [of _ "[]" es] by auto
  ultimately show ?thesis
    unfolding no_summary_def by (auto simp: list_all_iff matches_shift simp del: walk.simps)
qed

lemma find_summary_fold:
  "fold (\<lambda>file_path summary_path.
           if contains ''summary.json'' (last file_path) then Some file_path else summary_path)
        xs acc
   = (case filter matches xs of [] \<Rightarrow> acc | m # ms \<Rightarrow> Some (last (m # ms)))"
  by (induction xs arbitrary: acc) (auto simp: matches_def split: list.splits)

lemma find_summary_None: "(find_summary xs = None) = list_all (\<lambda>p. \<not> matches p) xs"
proof -
  have "(filter matches xs = []) = list_all (\<lambda>p. \<not> matches p) xs"
    by (simp add: filter_empty_conv list_all_iff)
  then show ?thesis
    unfolding find_summary_def find_summary_fold by (cases "filter matches xs") auto
qed

lemma find_summary_Some: "find_summary xs = Some p \<Longrightarrow> p \<in> set xs \<and> matches p"
proof -
  assume a: "find_summary xs = Some p"
  then obtain m ms where f: "filter matches xs = m # ms" and p: "p = last (m # ms)"
    unfolding find_summary_def find_summary_fold by (auto split: list.splits)
  have "p \<in> set (filter matches xs)" unfolding f p by (rule last_in_set) simp
  then show ?thesis by simp
qed

declare walk.simps [simp del]

lemma find_summary_no_summary: "no_summary E \<Longrightarrow> find_summary (walk h E) = None"
  by (simp add: find_summary_None no_summary_walk)

lemmas exec_simps = io_defs Let_def map_of_update_same write_at_file write_at_dir lookup_dir
  makedirs_fresh makedirs_existing

lemma resolve_none:
  assumes dir: "map_of (fs w) (run_dir_name (short_name s) i) = Some (Dir E)"
    and wr: "harness_writable E"
    and none: "no_summary E"
  shows "fst (resolve_artifact s n od i w) = Inr (basic_summary_partial s n)"
  using dir wr find_summary_no_summary [OF none]
  by (simp add: resolve_artifact_def exec_simps harness_writable_def cong: io_congs)

lemma lookup_update_other:
  assumes "lookup es q = Some (File c)" and "writable es n" and "last q \<noteq> n"
  shows "lookup (AList.update n (File x) es) q = Some (File c)"
proof (cases q)
  case Nil
  with assms(1) show ?thesis by (simp add: lookup.simps)
next
  case (Cons d p)
  show ?thesis
  proof (cases "d = n")
    case False
    with assms(1) show ?thesis by (simp add: Cons lookup.simps update_conv')
  next
    case True
    with assms show ?thesis
      by (auto simp: Cons lookup.simps writable_def split: option.splits node.splits if_splits)
  qed
qed

lemma json_load_corrupt:
  assumes "lookup (fs w) p = Some (File c)" and "\<not> is_json_dict c"
  shows "(\<exists>e. json_load p w = (Inl (Exn ''JSONDecodeError'' e), w))
       \<or> (\<exists>v. json_load p w = (Inr v, w) \<and> (\<forall>d. v \<noteq> PDict d))"
  using assms by (cases c) (auto simp: json_load_def)

lemma load_summary_corrupt:
  assumes "lookup (fs w) p = Some (File c)" and "\<not> is_json_dict c"
  shows "\<exists>e. load_summary p rd s i lp w = (Inl (Exn (fst e) (snd e)), w)"
proof -
  from json_load_corrupt [OF assms] show ?thesis
  proof
    assume "\<exists>e. json_load p w = (Inl (Exn ''JSONDecodeError'' e), w)"
    then obtain e where "json_load p w = (Inl (Exn ''JSONDecodeError'' e), w)" by blast
    then have "load_summary p rd s i lp w = (Inl (Exn (fst (''JSONDecodeError'', e)) (snd (''JSONDecodeError'', e))), w)"
      by (simp add: load_summary_def seq_def)
    then show ?thesis by blast
  next
    assume "\<exists>v. json_load p w = (Inr v, w) \<and> (\<forall>d. v \<noteq> PDict d)"
    then obtain v where v: "json_load p w = (Inr v, w)" "\<forall>d. v \<noteq> PDict d" by blast
    then have "load_summary p rd s i lp w
      = (Inl (Exn (fst (''TypeError'', ''object does not support item assignment''))
                  (snd (''TypeError'', ''object does not support item assignment''))), w)"
      by (cases v) (simp_all add: load_summary_def seq_def raise_exn_def)
    then show ?thesis by blast
  qed
qed

lemma resolve_corrupt:
  assumes dir: "map_of (fs w) (run_dir_name (short_name s) i) = Some (Dir E)"
    and wr: "harness_writable E"
    and found: "find_summary (walk [run_dir_name (short_name s) i] E) = Some p"
    and isfile: "lookup (fs w) p = Some (File c)"
    and corrupt: "\<not> is_json_dict c"
  shows "fst (resolve_artifact s n od i w) = Inr (basic_summary_partial s n)"
proof -
  let ?rd = "run_dir_name (short_name s) i"
  from find_summary_Some [OF found] have mem: "p \<in> set (walk [?rd] E)" and m: "matches p"
    by simp_all
  from walk_proper(1) [OF mem] obtain q where q: "p = ?rd # q" "q \<noteq> []" by auto
  from m q have lastq: "last q \<noteq> ''experiment_log.txt''"
    by (auto simp: matches_def)
  from isfile dir q have lq: "lookup E q = Some (File c)" by (simp add: lookup_dir)
  from wr have wl: "writable E ''experiment_log.txt''" by (simp add: harness_writable_def)
  define w1 where "w1 = w\<lparr>fs := AList.update ?rd
       (Dir (AList.update ''experiment_log.txt''
          (File (appended (lookup E [''experiment_log.txt''])
             ((''files found:'', []) # map (\<lambda>f. (''{}'', [PStr (path_str od f)])) (walk [?rd] E))))
          E)) (fs w)\<rparr>"
  have "lookup (fs w1) p = Some (File c)"
    using lookup_update_other [OF lq wl lastq]
    by (simp add: w1_def q lookup_dir map_of_update_same)
  from load_summary_corrupt [OF this corrupt]
  obtain e where ld: "load_summary p ?rd s i [?rd, ''experiment_log.txt''] w1
      = (Inl (Exn (fst e) (snd e)), w1)"
    by blast
  show ?thesis
    using dir wr found ld [unfolded w1_def]
    by (simp add: resolve_artifact_def exec_simps harness_writable_def cong: io_congs)
qed

lemma session_result:
  assumes dir: "map_of (fs w) rd = Some (Dir E0)"
    and R: "R = eng (set_run_attrs run_dir n s (module_attrs w)) E0"
    and wl: "writable (eng_files R) ''experiment_log.txt''"
    and exc: "raises_only_Exception (eng_raised R)"
  shows "engine_session eng rd run_dir n s [rd, ''experiment_log.txt''] w
     = (Inr (),
        (emit (eng_out R) (eng_err R) w)
          \<lparr>module_attrs :=
             restore_attrs (getattr_or PNone (OUT_DIR (module_attrs w)))
               (getattr_or PNone (SLOTS (module_attrs w)))
               (getattr_or PNone (SOLVERS_TO_RUN (module_attrs w))) (eng_cfg R),
           fs := AList.update rd
                   (Dir (AList.update ''experiment_log.txt''
                           (File (appended (lookup (eng_files R) [''experiment_log.txt''])
                                    (session_log (eng_raised R))))
                           (eng_files R)))
                   (fs w)\<rparr>)"
proof (cases "eng_raised R")
  case None
  with dir wl R [symmetric] show ?thesis
    by (simp add: engine_session_def exec_simps cong: io_congs)
next
  case (Some e)
  with exc have "is_Exception e" by simp
  with Some dir wl R [symmetric] show ?thesis
    by (simp add: engine_session_def exec_simps cong: io_congs)
qed

lemma run_quiet_failure:
  assumes fresh: "map_of (fs w) (run_dir_name (short_name s) i) = None"
    and polite: "\<forall>cfg es. harness_ok es \<longrightarrow> harness_ok (eng_files (eng cfg es))"
    and exc: "\<forall>cfg es. raises_only_Exception (eng_raised (eng cfg es))"
  shows "fst (run_experiment_for_solver (Some eng) s n od i w) = Inr (basic_summary_partial s n)"
proof -
  let ?rd = "run_dir_name (short_name s) i"
  define E0 where "E0 =
    [(''experiment_log.txt'',
      File (Text [(''start solver: {}'', [PStr s]),
                  (''run index: {}'', [PNum (real (i + 1))]),
                  (''number of slots: {}'', [PNum (of_int n)]),
                  (''current configuration of the main module:'', []),
                  (''OUT_DIR: {}'', [getattr_or (PStr ''None'') (OUT_DIR (module_attrs w))]),
                  (''SLOTS: {}'', [getattr_or (PStr ''None'') (SLOTS (module_attrs w))]),
                  (''SOLVERS_TO_RUN: {}'',
                   [getattr_or (PStr ''None'') (SOLVERS_TO_RUN (module_attrs w))])])),
     (''experiment_config.json'',
      File (Json (PDict [(''OUT_DIR'', PStr (path_str od [?rd])),
                         (''SLOTS'', PNum (of_int n)),
                         (''SOLVERS_TO_RUN'', PList [PStr s])])))]"
  define w0 where "w0 = w\<lparr>fs := AList.update ?rd (Dir E0) (fs w)\<rparr>"
  let ?R = "eng (set_run_attrs (path_str od [?rd]) n s (module_attrs w0)) E0"
  have ok0: "harness_ok E0"
    by (simp add: E0_def harness_ok_def harness_writable_def no_summary_def matches_def walk.simps)
  with polite have ok1: "harness_ok (eng_files ?R)" by blast
  have dir0: "map_of (fs w0) ?rd = Some (Dir E0)"
    by (simp add: w0_def map_of_update_same)
  from ok1 have wl: "writable (eng_files ?R) ''experiment_log.txt''"
    by (simp add: harness_ok_def harness_writable_def)
  from exc have ex: "raises_only_Exception (eng_raised ?R)" by blast
  note sr = session_result [where w = w0 and rd = ?rd and ?E0.0 = E0 and R = ?R and eng = eng
      and run_dir = "path_str od [?rd]" and n = n and s = s, OF dir0 refl wl ex]
  define w' where "w' = snd (engine_session eng ?rd (path_str od [?rd]) n s [?rd, ''experiment_log.txt''] w0)"
  define x where "x = File (appended (lookup (eng_files ?R) [''experiment_log.txt''])
                                    (session_log (eng_raised ?R)))"
  have sess0: "engine_session eng ?rd (path_str od [?rd]) n s [?rd, ''experiment_log.txt''] w0
      = (Inr (), w')"
    unfolding w'_def by (simp add: sr)
  have dir1: "map_of (fs w') ?rd = Some (Dir (AList.update ''experiment_log.txt'' x (eng_files ?R)))"
    unfolding w'_def x_def by (simp add: sr map_of_update_same)
  have wr1: "harness_writable (AList.update ''experiment_log.txt'' x (eng_files ?R))"
    using ok1 by (simp add: x_def harness_ok_def harness_writable_def)
  have ns1: "no_summary (AList.update ''experiment_log.txt'' x (eng_files ?R))"
    using ok1 unfolding harness_ok_def no_summary_def x_def
    by (intro walk_update) (simp_all add: matches_def)
  obtain w'' where res: "resolve_artifact s n od i w' = (Inr (basic_summary_partial s n), w'')"
    using resolve_none [OF dir1 wr1 ns1, of n od] by (metis prod.collapse)
  show ?thesis
    using fresh sess0 [unfolded w0_def E0_def] res
    by (simp add: run_experiment_for_solver_def exec_simps lookup_single cong: io_congs)
qed

lemma run_import_failure:
  assumes fresh: "map_of (fs w) (run_dir_name (short_name s) i) = None"
  shows "fst (run_experiment_for_solver None s n od i w)
           = Inr (basic_summary_error s i n (Exn ''ModuleNotFoundError'' ''No module named main''))
       \<and> lookup (fs (snd (run_experiment_for_solver None s n od i w)))
            [run_dir_name (short_name s) i, ''error.txt'']
           = Some (File (Text [(''Error: {}'', [PStr ''No module named main'']),
                               (''Traceback:'', []),
                               (''{}'', [PStr ''ModuleNotFoundError: No module named main''])]))"
  using fresh
  by (simp add: run_experiment_for_solver_def error_fallback_def exec_simps lookup_single
      cong: io_congs)

section \<open>The run executor: fallback records\<close>

lemma olma_run_dir:
  "run_dir_name (short_name ''solvers.OLMA_Solver_perfect.OLMA_Solver'') 0 = ''OLMA_Solver_run_1''"
  "run_dir_name (short_name ''solvers.OLMA_Solver_perfect.OLMA_Solver'') 1 = ''OLMA_Solver_run_2''"
  by code_simp+

lemma failing_engine_polite:
  "\<forall>cfg es. harness_ok es \<longrightarrow> harness_ok (eng_files (failing_engine cfg es))"
  "\<forall>cfg es. raises_only_Exception (eng_raised (failing_engine cfg es))"
  by (simp_all add: failing_engine_def)

text \<open>
  Claim C4, as amended. (1) When the search in the run directory finds no file whose name
  contains \<^verbatim>\<open>summary.json\<close>, or the file it finds is not a JSON dictionary, and the
  executor can write its own three files, the record returned is the fallback record with
  status \<^verbatim>\<open>partial_results\<close>. (2) That is also the record returned in a fresh run
  directory whatever the entry point did, returned or raised an \<^verbatim>\<open>Exception\<close>, as
  long as it left no such file and none of the executor's file names as a directory: the
  executor catches the exception of the entry point and goes on to the search.
  (3) A record with status \<^verbatim>\<open>error\<close> is returned when an exception escapes the body
  outside the call of the entry point; when the engine module cannot be imported the
  record holds the message and \<^verbatim>\<open>error.txt\<close> holds message and trace.
\<close>

theorem fallback_status:
  "(map_of (fs w) (run_dir_name (short_name s) i) = Some (Dir E) \<and> harness_writable E
      \<and> (no_summary E
          \<or> (\<exists>p c. find_summary (walk [run_dir_name (short_name s) i] E) = Some p
                \<and> lookup (fs w) p = Some (File c) \<and> \<not> is_json_dict c))
     \<longrightarrow> fst (resolve_artifact s n od i w) = Inr (basic_summary_partial s n))
   \<and> (map_of (fs w) (run_dir_name (short_name s) i) = None
      \<and> (\<forall>cfg es. harness_ok es \<longrightarrow> harness_ok (eng_files (eng cfg es)))
      \<and> (\<forall>cfg es. raises_only_Exception (eng_raised (eng cfg es)))
     \<longrightarrow> fst (run_experiment_for_solver (Some eng) s n od i w) = Inr (basic_summary_partial s n))
   \<and> (map_of (fs w) (run_dir_name (short_name s) i) = None
     \<longrightarrow> fst (run_experiment_for_solver None s n od i w)
           = Inr (basic_summary_error s i n (Exn ''ModuleNotFoundError'' ''No module named main''))
         \<and> lookup (fs (snd (run_experiment_for_solver None s n od i w)))
              [run_dir_name (short_name s) i, ''error.txt'']
           = Some (File (Text [(''Error: {}'', [PStr ''No module named main'']),
                               (''Traceback:'', []),
                               (''{}'', [PStr ''ModuleNotFoundError: No module named main''])])))
   \<and> map_of (basic_summary_partial s n) ''status'' = Some (PStr ''partial_results'')
   \<and> map_of (basic_summary_error s i n e) ''status'' = Some (PStr ''error'')"
proof (intro conjI impI)
  assume a: "map_of (fs w) (run_dir_name (short_name s) i) = Some (Dir E) \<and> harness_writable E
      \<and> (no_summary E
          \<or> (\<exists>p c. find_summary (walk [run_dir_name (short_name s) i] E) = Some p
                \<and> lookup (fs w) p = Some (File c) \<and> \<not> is_json_dict c))"
  then have dir: "map_of (fs w) (run_dir_name (short_name s) i) = Some (Dir E)"
    and wr: "harness_writable E" by simp_all
  from a have "no_summary E
      \<or> (\<exists>p c. find_summary (walk [run_dir_name (short_name s) i] E) = Some p
            \<and> lookup (fs w) p = Some (File c) \<and> \<not> is_json_dict c)" by simp
  then show "fst (resolve_artifact s n od i w) = Inr (basic_summary_partial s n)"
  proof
    assume "no_summary E"
    then show ?thesis by (rule resolve_none [OF dir wr])
  next
    assume "\<exists>p c. find_summary (walk [run_dir_name (short_name s) i] E) = Some p
            \<and> lookup (fs w) p = Some (File c) \<and> \<not> is_json_dict c"
    then obtain p c where "find_summary (walk [run_dir_name (short_name s) i] E) = Some p"
      and "lookup (fs w) p = Some (File c)" and "\<not> is_json_dict c" by blast
    then show ?thesis by (rule resolve_corrupt [OF dir wr])
  qed
next
  assume "map_of (fs w) (run_dir_name (short_name s) i) = None
      \<and> (\<forall>cfg es. harness_ok es \<longrightarrow> harness_ok (eng_files (eng cfg es)))
      \<and> (\<forall>cfg es. raises_only_Exception (eng_raised (eng cfg es)))"
  then show "fst (run_experiment_for_solver (Some eng) s n od i w) = Inr (basic_summary_partial s n)"
    using run_quiet_failure [of w s i eng n od] by blast
next
  assume f: "map_of (fs w) (run_dir_name (short_name s) i) = None"
  from run_import_failure [OF f]
  show "fst (run_experiment_for_solver None s n od i w)
           = Inr (basic_summary_error s i n (Exn ''ModuleNotFoundError'' ''No module named main''))"
    by simp
  from run_import_failure [OF f]
  show "lookup (fs (snd (run_experiment_for_solver None s n od i w)))
              [run_dir_name (short_name s) i, ''error.txt'']
           = Some (File (Text [(''Error: {}'', [PStr ''No module named main'']),
                               (''Traceback:'', []),
                               (''{}'', [PStr ''ModuleNotFoundError: No module named main''])]))"
    by simp
next
  show "map_of (basic_summary_partial s n) ''status'' = Some (PStr ''partial_results'')"
    by (simp add: basic_summary_partial_def)
next
  show "map_of (basic_summary_error s i n e) ''status'' = Some (PStr ''error'')"
    by (simp add: basic_summary_error_def)
qed

theorem fallback_status_witness:
  "fst (resolve_artifact ''solvers.OLMA_Solver_perfect.OLMA_Solver'' 5 ''out'' 0
         (start_world\<lparr>fs := [(''OLMA_Solver_run_1'', Dir [(''summary.json'', File (Text []))])]\<rparr>))
     = Inr (basic_summary_partial ''solvers.OLMA_Solver_perfect.OLMA_Solver'' 5)
   \<and> fst (run_experiment_for_solver (Some failing_engine)
            ''solvers.OLMA_Solver_perfect.OLMA_Solver'' 5 ''out'' 1 start_world)
     = Inr (basic_summary_partial ''solvers.OLMA_Solver_perfect.OLMA_Solver'' 5)
   \<and> fst (run_experiment_for_solver None
            ''solvers.OLMA_Solver_perfect.OLMA_Solver'' 5 ''out'' 0 start_world)
     = Inr (basic_summary_error ''solvers.OLMA_Solver_perfect.OLMA_Solver'' 0 5
              (Exn ''ModuleNotFoundError'' ''No module named main''))"
proof -
  let ?s = "''solvers.OLMA_Solver_perfect.OLMA_Solver''"
  let ?w = "start_world\<lparr>fs := [(''OLMA_Solver_run_1'', Dir [(''summary.json'', File (Text []))])]\<rparr>"
  have h1: "map_of (fs ?w) (run_dir_name (short_name ?s) 0)
      = Some (Dir [(''summary.json'', File (Text []))])"
    by (simp add: olma_run_dir)
  have h2: "harness_writable [(''summary.json'', File (Text []))]"
    by (simp add: harness_writable_def)
  have h3: "find_summary (walk [run_dir_name (short_name ?s) 0] [(''summary.json'', File (Text []))])
      = Some [''OLMA_Solver_run_1'', ''summary.json'']"
    by (simp add: olma_run_dir find_summary_def walk.simps)
  have h4: "lookup (fs ?w) [''OLMA_Solver_run_1'', ''summary.json''] = Some (File (Text []))"
    by (simp add: lookup.simps)
  have h5: "map_of (fs start_world) (run_dir_name (short_name ?s) 1) = None"
    "map_of (fs start_world) (run_dir_name (short_name ?s) 0) = None"
    by (simp_all add: start_world_def)
  from h1 h2 h3 h4
    fallback_status [of ?w ?s 0 "[(''summary.json'', File (Text []))]" 5 "''out''" failing_engine]
  have c1: "fst (resolve_artifact ?s 5 ''out'' 0 ?w) = Inr (basic_summary_partial ?s 5)"
    by force
  from h5 failing_engine_polite
    fallback_status [of start_world ?s 1 "[]" 5 "''out''" failing_engine]
  have c2: "fst (run_experiment_for_solver (Some failing_engine) ?s 5 ''out'' 1 start_world)
      = Inr (basic_summary_partial ?s 5)"
    by blast
  from h5 fallback_status [of start_world ?s 0 "[]" 5 "''out''" failing_engine]
  have c3: "fst (run_experiment_for_solver None ?s 5 ''out'' 0 start_world)
      = Inr (basic_summary_error ?s 0 5 (Exn ''ModuleNotFoundError'' ''No module named main''))"
    by blast
  from c1 c2 c3 show ?thesis by blast
qed

text \<open>
  Claim C4 as stated fails: the entry point raises, and the record returned has status
  \<^verbatim>\<open>partial_results\<close>, not \<^verbatim>\<open>error\<close>.
\<close>

theorem engine_failure_is_partial_results:
  "eng_raised (failing_engine (module_attrs start_world) [])
     = Some (Exn ''RuntimeError'' ''solver failed'')
   \<and> fst (run_experiment_for_solver (Some failing_engine)
            ''solvers.OLMA_Solver_perfect.OLMA_Solver'' 5 ''out'' 0 start_world)
     = Inr (basic_summary_partial ''solvers.OLMA_Solver_perfect.OLMA_Solver'' 5)
   \<and> map_of (basic_summary_partial ''solvers.OLMA_Solver_perfect.OLMA_Solver'' 5) ''status''
     = Some (PStr ''partial_results'')
   \<and> map_of (basic_summary_partial ''solvers.OLMA_Solver_perfect.OLMA_Solver'' 5) ''status''
     \<noteq> Some (PStr ''error'')"
  by code_simp

text \<open>
  Claim C6 (the code departs from it). The entry point returns and writes no file; the
  record the executor returns is the fallback record of lines 190--200, which has no key
  \<^verbatim>\<open>run\<close>. The record of lines 230--241 and the record written to
  \<^verbatim>\<open>error_summary.json\<close> both have it.
\<close>

theorem partial_fallback_lacks_run:
  "fst (run_experiment_for_solver (Some silent_engine)
         ''solvers.OLMA_Solver_perfect.OLMA_Solver'' 5 ''out'' 0 start_world)
     = Inr (basic_summary_partial ''solvers.OLMA_Solver_perfect.OLMA_Solver'' 5)
   \<and> map_of (basic_summary_partial ''solvers.OLMA_Solver_perfect.OLMA_Solver'' 5) ''run'' = None
   \<and> map_of (basic_summary_partial ''solvers.OLMA_Solver_perfect.OLMA_Solver'' 5) ''solver''
     = Some (PStr ''solvers.OLMA_Solver_perfect.OLMA_Solver'')
   \<and> map_of (basic_summary_error ''solvers.OLMA_Solver_perfect.OLMA_Solver'' 0 5
               (Exn ''ModuleNotFoundError'' ''No module named main'')) ''run''
     = Some (PNum 1)"
  by code_simp

section \<open>The run executor: what the search accepts\<close>








section \<open>The engine session: restoring the attributes\<close>

lemma keeps_frame: "(\<And>w. module_attrs (snd (m w)) = module_attrs w) \<Longrightarrow> keeps P m"
  by (simp add: keeps_def)

lemma keeps_ret [intro!]: "keeps P (ret x)"
  by (simp add: keeps_def ret_def)

lemma keeps_raise [intro!]: "keeps P (raise_exn e)"
  by (simp add: keeps_def raise_exn_def)

lemma keeps_seq [intro!]: "keeps P m \<Longrightarrow> (\<And>x. keeps P (f x)) \<Longrightarrow> keeps P (seq m f)"
  unfolding keeps_def seq_def
  by (auto split: prod.splits sum.splits)

lemma keeps_try_except [intro!]:
  "keeps P m \<Longrightarrow> (\<And>e. keeps P (h e)) \<Longrightarrow> keeps P (try_except m h)"
  unfolding keeps_def try_except_def
  by (auto split: prod.splits sum.splits)

lemma keeps_try_finally [intro!]:
  "keeps P m \<Longrightarrow> keeps P fin \<Longrightarrow> keeps P (try_finally m fin)"
  unfolding keeps_def try_finally_def
  by (auto split: prod.splits sum.splits)

lemma keeps_if [intro!]: "keeps P a \<Longrightarrow> keeps P b \<Longrightarrow> keeps P (if c then a else b)"
  by simp

lemma keeps_for_each [intro!]: "(\<And>x. keeps P (body x)) \<Longrightarrow> keeps P (for_each xs body)"
  by (induction xs) auto

lemma keeps_fs_step [intro!]: "keeps P (fs_step f)"
  by (rule keeps_frame) (simp add: fs_step_def split: sum.splits)

lemma keeps_fs_prims [intro!]:
  "keeps P (os_makedirs p)" "keeps P (write_text p ls)" "keeps P (append_text p ls)"
  "keeps P (json_dump p v)" "keeps P (shutil_copy2 p q)"
  unfolding os_makedirs_def write_text_def append_text_def json_dump_def shutil_copy2_def
  by (rule keeps_fs_step)+

lemma keeps_prims [intro!]:
  "keeps P (json_load p)"
  "keeps P strftime" "keeps P (list_files rd)" "keeps P get_attrs" "keeps P (import_main mm)"
  "keeps P (py_print str)" "keeps P (corpus_append k r)" "keeps P (solver_results_append r)"
  "keeps P import_traceback" "keeps P (lift res)" "keeps P get_capture" "keeps P (set_capture c)"
  by (auto simp: json_load_def strftime_def list_files_def get_attrs_def import_main_def
        py_print_def emit_def corpus_append_def solver_results_append_def import_traceback_def
        lift_def get_capture_def set_capture_def keeps_def ret_def raise_exn_def
      split: option.splits node.splits fcontent.splits)

lemma session_attrs:
  "module_attrs (snd (engine_session eng rd run_dir n s lp w))
     = restore_attrs (getattr_or PNone (OUT_DIR (module_attrs w)))
         (getattr_or PNone (SLOTS (module_attrs w)))
         (getattr_or PNone (SOLVERS_TO_RUN (module_attrs w)))
         (module_attrs (snd (try_except
                 (seq (call_main eng rd) (\<lambda>u. append_text lp [(''main function completed'', [])]))
                 (\<lambda>main_error. append_text lp
                      [(''main function failed: {}'', [PStr (exn_msg main_error)]),
                       (''Traceback:'', []),
                       (''{}'', [PStr (format_exc main_error)])])
                 (w\<lparr>module_attrs := set_run_attrs run_dir n s (module_attrs w)\<rparr>))))"
  by (simp add: engine_session_def seq_def get_attrs_def Let_def modify_attrs_def try_finally_def
      split: prod.splits cong: io_congs)

lemma keeps_session [intro!]: "sticky P \<Longrightarrow> keeps P (engine_session eng rd run_dir n s lp)"
  unfolding keeps_def sticky_def by (simp add: session_attrs)

lemma keeps_load_summary [intro!]: "keeps P (load_summary sp rd s i lp)"
  unfolding load_summary_def Let_def
  by (auto intro!: keeps_seq split: pyval.splits)

lemma keeps_resolve [intro!]: "keeps P (resolve_artifact s n od i)"
  unfolding resolve_artifact_def Let_def
  by (auto intro!: keeps_seq split: option.splits)

lemma keeps_error_fallback [intro!]: "keeps P (error_fallback s n i e)"
  unfolding error_fallback_def Let_def by auto

lemma keeps_run [intro!]: "sticky P \<Longrightarrow> keeps P (run_experiment_for_solver mm s n od i)"
  unfolding run_experiment_for_solver_def Let_def by auto

lemma keeps_run_once [intro!]: "sticky P \<Longrightarrow> keeps P (run_once mm s n od i)"
  unfolding run_once_def Let_def by auto

lemma keeps_solver_once [intro!]: "sticky P \<Longrightarrow> keeps P (solver_once mm k n od s)"
  unfolding solver_once_def Let_def
  by (intro keeps_try_except keeps_seq keeps_for_each keeps_run_once keeps_prims keeps_fs_prims
        keeps_if keeps_ret)
     (auto simp: keeps_def)

lemma sticky_fields:
  "v \<noteq> PNone \<Longrightarrow> sticky (\<lambda>a. OUT_DIR a = Some v)"
  "v \<noteq> PNone \<Longrightarrow> sticky (\<lambda>a. SLOTS a = Some v)"
  "v \<noteq> PNone \<Longrightarrow> sticky (\<lambda>a. SOLVERS_TO_RUN a = Some v)"
  by (simp_all add: sticky_def restore_attrs_def getattr_or_def)

lemma direct_session_attrs:
  "OUT_DIR (module_attrs (snd (direct_session eng rd lp sn sd old original w))) = Some (fst original)
   \<and> SLOTS (module_attrs (snd (direct_session eng rd lp sn sd old original w)))
       = Some (fst (snd original))
   \<and> SOLVERS_TO_RUN (module_attrs (snd (direct_session eng rd lp sn sd old original w)))
       = Some (snd (snd original))"
proof -
  have fin: "\<And>b w'. module_attrs (snd ((seq get_capture (\<lambda>buffers.
        seq (set_capture old) (\<lambda>u.
        seq (write_attrs original) (\<lambda>u.
        try_except
          (write_text (sd @ [sn @ ''_output.txt''])
             (output_text (getvalue buffers)))
          (\<lambda>e. ret ()))))) w'))
     = (module_attrs w')\<lparr>OUT_DIR := Some (fst original), SLOTS := Some (fst (snd original)),
          SOLVERS_TO_RUN := Some (snd (snd original))\<rparr>"
    by (simp add: seq_def get_capture_def set_capture_def write_attrs_def modify_attrs_def
        try_except_def write_text_def fs_step_def ret_def split: sum.splits)
  have snd_fin: "\<And>m fin w. snd (try_finally m fin w) = snd (fin (snd (m w)))"
    by (simp add: try_finally_def split: prod.splits sum.splits)
  show ?thesis
    unfolding direct_session_def by (simp only: snd_fin fin) simp
qed

text \<open>
  Claim C1, as amended. After \<^verbatim>\<open>run_experiment_for_solver\<close>, whatever the entry
  point did (returned, raised an \<^verbatim>\<open>Exception\<close>, raised anything else) and whether or
  not the function itself returned, each of \<^verbatim>\<open>OUT_DIR\<close>, \<^verbatim>\<open>SLOTS\<close> and
  \<^verbatim>\<open>SOLVERS_TO_RUN\<close> that was present and not \<^verbatim>\<open>None\<close> before has the value it had
  before; the same holds after the coordinator's loop over any list of solvers and any
  number of runs. Nothing is said of an attribute that was absent or \<^verbatim>\<open>None\<close>: the
  \<^verbatim>\<open>finally\<close> block does not write it back. The \<^verbatim>\<open>finally\<close> block of the
  coordinator's direct re-execution (lines 600--606) writes back all three attributes it
  read, \<^verbatim>\<open>None\<close> included.
\<close>

theorem session_restoration:
  "(OUT_DIR (module_attrs w) = Some v \<and> v \<noteq> PNone \<longrightarrow>
      OUT_DIR (module_attrs (snd (run_experiment_for_solver mm s n od i w))) = Some v
      \<and> OUT_DIR (module_attrs (snd (for_each solvers (solver_once mm k n od) w))) = Some v)
   \<and> (SLOTS (module_attrs w) = Some v \<and> v \<noteq> PNone \<longrightarrow>
      SLOTS (module_attrs (snd (run_experiment_for_solver mm s n od i w))) = Some v
      \<and> SLOTS (module_attrs (snd (for_each solvers (solver_once mm k n od) w))) = Some v)
   \<and> (SOLVERS_TO_RUN (module_attrs w) = Some v \<and> v \<noteq> PNone \<longrightarrow>
      SOLVERS_TO_RUN (module_attrs (snd (run_experiment_for_solver mm s n od i w))) = Some v
      \<and> SOLVERS_TO_RUN (module_attrs (snd (for_each solvers (solver_once mm k n od) w))) = Some v)
   \<and> OUT_DIR (module_attrs (snd (direct_session eng rd lp sn sd old original w)))
       = Some (fst original)
   \<and> SLOTS (module_attrs (snd (direct_session eng rd lp sn sd old original w)))
       = Some (fst (snd original))
   \<and> SOLVERS_TO_RUN (module_attrs (snd (direct_session eng rd lp sn sd old original w)))
       = Some (snd (snd original))"
proof -
  have run: "\<And>P. sticky P \<Longrightarrow> P (module_attrs w)
      \<Longrightarrow> P (module_attrs (snd (run_experiment_for_solver mm s n od i w)))"
    using keeps_run unfolding keeps_def by blast
  have loop: "\<And>P. sticky P \<Longrightarrow> P (module_attrs w)
      \<Longrightarrow> P (module_attrs (snd (for_each solvers (solver_once mm k n od) w)))"
  proof -
    fix P :: "engine_cfg \<Rightarrow> bool"
    assume st: "sticky P" and p: "P (module_attrs w)"
    have "keeps P (for_each solvers (solver_once mm k n od))"
      by (rule keeps_for_each) (rule keeps_solver_once [OF st])
    with p show "P (module_attrs (snd (for_each solvers (solver_once mm k n od) w)))"
      unfolding keeps_def by blast
  qed
  show ?thesis
    using run [OF sticky_fields(1) [of v]] run [OF sticky_fields(2) [of v]]
      run [OF sticky_fields(3) [of v]] loop [OF sticky_fields(1) [of v]]
      loop [OF sticky_fields(2) [of v]] loop [OF sticky_fields(3) [of v]]
      direct_session_attrs [of eng rd lp sn sd old original w]
    by blast
qed

theorem session_restoration_witness:
  "OUT_DIR (module_attrs start_world) = Some (PStr ''logs'')
   \<and> OUT_DIR (module_attrs (snd (run_experiment_for_solver (Some failing_engine)
        ''solvers.OLMA_Solver_perfect.OLMA_Solver'' 5 ''out'' 0 start_world)))
       = Some (PStr ''logs'')
   \<and> SLOTS (module_attrs start_world) = Some (PNum 50)
   \<and> SLOTS (module_attrs (snd (for_each
        [''solvers.OLMA_Solver_perfect.OLMA_Solver'', ''solvers.NOMA_VEC_Solver.NOMA_VEC_Solver'']
        (solver_once (Some failing_engine) 3 5 ''out'') start_world)))
       = Some (PNum 50)
   \<and> SOLVERS_TO_RUN (module_attrs start_world)
       = Some (PList [PStr ''solvers.OLMA_Solver_perfect.OLMA_Solver''])
   \<and> SOLVERS_TO_RUN (module_attrs (snd (run_experiment_for_solver (Some failing_engine)
        ''solvers.OLMA_Solver_perfect.OLMA_Solver'' 5 ''out'' 0 start_world)))
       = Some (PList [PStr ''solvers.OLMA_Solver_perfect.OLMA_Solver''])"
proof -
  have a: "OUT_DIR (module_attrs start_world) = Some (PStr ''logs'') \<and> PStr ''logs'' \<noteq> PNone"
    "SLOTS (module_attrs start_world) = Some (PNum 50) \<and> PNum 50 \<noteq> PNone"
    "SOLVERS_TO_RUN (module_attrs start_world)
       = Some (PList [PStr ''solvers.OLMA_Solver_perfect.OLMA_Solver''])
     \<and> PList [PStr ''solvers.OLMA_Solver_perfect.OLMA_Solver''] \<noteq> PNone"
    by (simp_all add: start_world_def)
  from a(1) session_restoration [of start_world "PStr ''logs''" "Some failing_engine"
      "''solvers.OLMA_Solver_perfect.OLMA_Solver''" 5 "''out''" 0]
  have c1: "OUT_DIR (module_attrs (snd (run_experiment_for_solver (Some failing_engine)
        ''solvers.OLMA_Solver_perfect.OLMA_Solver'' 5 ''out'' 0 start_world)))
       = Some (PStr ''logs'')" by blast
  from a(2) session_restoration [of start_world "PNum 50" "Some failing_engine" _ 5 "''out''" _
      "[''solvers.OLMA_Solver_perfect.OLMA_Solver'', ''solvers.NOMA_VEC_Solver.NOMA_VEC_Solver'']" 3]
  have c2: "SLOTS (module_attrs (snd (for_each
        [''solvers.OLMA_Solver_perfect.OLMA_Solver'', ''solvers.NOMA_VEC_Solver.NOMA_VEC_Solver'']
        (solver_once (Some failing_engine) 3 5 ''out'') start_world)))
       = Some (PNum 50)" by blast
  from a(3) session_restoration [of start_world
      "PList [PStr ''solvers.OLMA_Solver_perfect.OLMA_Solver'']" "Some failing_engine"
      "''solvers.OLMA_Solver_perfect.OLMA_Solver''" 5 "''out''" 0]
  have c3: "SOLVERS_TO_RUN (module_attrs (snd (run_experiment_for_solver (Some failing_engine)
        ''solvers.OLMA_Solver_perfect.OLMA_Solver'' 5 ''out'' 0 start_world)))
       = Some (PList [PStr ''solvers.OLMA_Solver_perfect.OLMA_Solver''])" by blast
  from a c1 c2 c3 show ?thesis by blast
qed

text \<open>
  Claim C1 as stated fails where an attribute was absent before the run: the module has
  no \<^verbatim>\<open>OUT_DIR\<close>, and after the run it has one, the path of the run directory.
\<close>

theorem session_leaves_absent_attribute_set:
  "OUT_DIR (module_attrs bare_world) = None
   \<and> OUT_DIR (module_attrs (snd (run_experiment_for_solver (Some silent_engine)
        ''solvers.OLMA_Solver_perfect.OLMA_Solver'' 5 ''out'' 0 bare_world)))
       = Some (PStr ''out/OLMA_Solver_run_1'')
   \<and> module_attrs (snd (run_experiment_for_solver (Some silent_engine)
        ''solvers.OLMA_Solver_perfect.OLMA_Solver'' 5 ''out'' 0 bare_world))
       \<noteq> module_attrs bare_world"
  by code_simp

section \<open>Console capture\<close>

lemma solver_dir_name_no_dot: "CHR ''.'' \<notin> set (solver_dir_name s)"
  by (auto simp: solver_dir_name_def)

lemma solver_dir_not_log: "solver_dir_name s \<noteq> ''experiment_log.txt''"
proof
  assume "solver_dir_name s = ''experiment_log.txt''"
  then have "CHR ''.'' \<in> set (solver_dir_name s)" by simp
  with solver_dir_name_no_dot show False by blast
qed

lemmas cap_defs = get_capture_def set_capture_def py_print_def getvalue_def to_console_def
  to_buffers_def

lemma captured_call_result:
  assumes cap: "capture w = Some ([], [])"
    and R: "R = eng (module_attrs w) (dir_entries (fs w) rd)"
    and sdir: "map_of (eng_files R) sd = Some (Dir sub)"
    and wout: "writable sub (simple @ ''_output.txt'')"
    and wlog: "writable (eng_files R) ''experiment_log.txt''"
    and sdlog: "sd \<noteq> ''experiment_log.txt''"
  shows "capture (snd (captured_call eng rd [rd, ''experiment_log.txt''] simple [rd, sd] old w)) = old
    \<and> console_out (snd (captured_call eng rd [rd, ''experiment_log.txt''] simple [rd, sd] old w))
        = console_out w
    \<and> console_err (snd (captured_call eng rd [rd, ''experiment_log.txt''] simple [rd, sd] old w))
        = console_err w
    \<and> lookup (fs (snd (captured_call eng rd [rd, ''experiment_log.txt''] simple [rd, sd] old w)))
         [rd, sd, simple @ ''_output.txt'']
        = Some (File (Text (output_text (eng_out R @ scope_message (eng_raised R), eng_err R))))"
proof (cases "eng_raised R")
  case None
  with assms(1,3-6) R [symmetric] show ?thesis
    by (simp add: captured_call_def exec_simps cap_defs lookup_single map_of_update_other
        cong: io_congs)
next
  case (Some e)
  show ?thesis
  proof (cases "is_Exception e")
    case True
    with Some assms(1,3-6) R [symmetric] show ?thesis
      by (simp add: captured_call_def exec_simps cap_defs lookup_single map_of_update_other
          cong: io_congs)
  next
    case False
    with Some assms(1,3-6) R [symmetric] show ?thesis
      by (simp add: captured_call_def exec_simps cap_defs lookup_single map_of_update_other
          cong: io_congs)
  qed
qed

lemma solver_dir_not_config: "solver_dir_name s \<noteq> ''experiment_config.json''"
proof
  assume "solver_dir_name s = ''experiment_config.json''"
  then have "CHR ''.'' \<in> set (solver_dir_name s)" by simp
  with solver_dir_name_no_dot show False by blast
qed

lemma solver_dir_not_summary: "solver_dir_name s \<noteq> ''summary.json''"
proof
  assume "solver_dir_name s = ''summary.json''"
  then have "CHR ''.'' \<in> set (solver_dir_name s)" by simp
  with solver_dir_name_no_dot show False by blast
qed

lemmas solver_dir_neq = solver_dir_not_log solver_dir_not_config solver_dir_not_summary
  solver_dir_not_log [symmetric] solver_dir_not_config [symmetric] solver_dir_not_summary [symmetric]

lemma writable_Cons_Dir [simp]: "writable ((k, Dir sub) # es) n = (n \<noteq> k \<and> writable es n)"
  by (auto simp: writable_def)

lemma makedirs_dir:
  "map_of es d = Some (Dir sub) \<Longrightarrow>
   makedirs_at es (d # p) = bnd (makedirs_at sub p) (\<lambda>sub'. Inr (AList.update d (Dir sub') es))"
  by (simp add: makedirs_at.simps)

lemma makedirs_Nil: "makedirs_at es [] = Inr es"
  by (simp add: makedirs_at.simps)

lemma run_solver_output:
  assumes fresh: "map_of (fs w) (run_dir_name (short_name s) i) = None"
    and quiet: "\<forall>cfg es. eng_files (eng cfg es) = es"
    and outcome: "\<forall>cfg es. eng_raised (eng cfg es) = r"
  shows "(\<exists>cfg es. lookup (fs (snd (run_solver (Some eng) s n od i w)))
            [run_dir_name (short_name s) i, solver_dir_name s, short_name s @ ''_output.txt'']
          = Some (File (Text (output_text
               (eng_out (eng cfg es) @ scope_message r, eng_err (eng cfg es))))))
       \<and> console_out (snd (run_solver (Some eng) s n od i w)) = console_out w
       \<and> console_err (snd (run_solver (Some eng) s n od i w)) = console_err w
       \<and> capture (snd (run_solver (Some eng) s n od i w)) = capture w"
proof (cases r)
  case None
  with assms show ?thesis
    apply (simp add: run_solver_def captured_call_def exec_simps cap_defs lookup_single
        map_of_update_other solver_dir_neq makedirs_dir makedirs_Nil find_exact_def walk.simps
        cong: io_congs)
    apply (intro exI)
    apply (rule refl)
    done
next
  case (Some e)
  show ?thesis
  proof (cases "is_Exception e")
    case True
    with Some assms show ?thesis
      apply (simp add: run_solver_def captured_call_def exec_simps cap_defs lookup_single
          map_of_update_other solver_dir_neq makedirs_dir makedirs_Nil find_exact_def walk.simps
          cong: io_congs)
      apply (intro exI)
      apply (rule refl)
      done
  next
    case False
    with Some assms show ?thesis
      apply (simp add: run_solver_def captured_call_def exec_simps cap_defs lookup_single
          map_of_update_other solver_dir_neq makedirs_dir makedirs_Nil find_exact_def walk.simps
          cong: io_congs)
      apply (intro exI)
      apply (rule refl)
      done
  qed
qed

text \<open>
  Claim C9, as amended: the capture is what \<^verbatim>\<open>run_solver\<close> of
  \<^verbatim>\<open>run_bargain_match.py\<close> does. (1) Its block around the entry point (lines 88--125),
  entered with the streams redirected to two empty buffers: whatever the entry point does
  (returns, raises an \<^verbatim>\<open>Exception\<close>, raises anything else), afterwards the streams
  are what they were, nothing has reached the console, and the output file of the run
  holds the two sections with what the entry point wrote to its standard output, followed
  by the line \<^verbatim>\<open>run_solver\<close> prints in the scope, and what it wrote to its diagnostic
  output, provided the entry point left the solver directory and the files in it can be
  written. (2) A whole run in a fresh run directory with an entry point that leaves the
  directory as it finds it: the same, for each of the three outcomes.
\<close>

theorem console_capture_persisted:
  "(capture w = Some ([], [])
      \<and> map_of (eng_files (eng (module_attrs w) (dir_entries (fs w) rd))) sd = Some (Dir sub)
      \<and> writable sub (simple @ ''_output.txt'')
      \<and> writable (eng_files (eng (module_attrs w) (dir_entries (fs w) rd))) ''experiment_log.txt''
      \<and> sd \<noteq> ''experiment_log.txt''
     \<longrightarrow> capture (snd (captured_call eng rd [rd, ''experiment_log.txt''] simple [rd, sd] old w))
           = old
         \<and> console_out (snd (captured_call eng rd [rd, ''experiment_log.txt''] simple [rd, sd] old w))
           = console_out w
         \<and> console_err (snd (captured_call eng rd [rd, ''experiment_log.txt''] simple [rd, sd] old w))
           = console_err w
         \<and> lookup (fs (snd (captured_call eng rd [rd, ''experiment_log.txt''] simple [rd, sd] old w)))
              [rd, sd, simple @ ''_output.txt'']
           = Some (File (Text (output_text
               (eng_out (eng (module_attrs w) (dir_entries (fs w) rd))
                  @ scope_message (eng_raised (eng (module_attrs w) (dir_entries (fs w) rd))),
                eng_err (eng (module_attrs w) (dir_entries (fs w) rd)))))))
   \<and> (map_of (fs w) (run_dir_name (short_name s) i) = None
      \<and> (\<forall>cfg es. eng_files (eng cfg es) = es)
      \<and> (\<forall>cfg es. eng_raised (eng cfg es) = r)
     \<longrightarrow> (\<exists>cfg es. lookup (fs (snd (run_solver (Some eng) s n od i w)))
              [run_dir_name (short_name s) i, solver_dir_name s, short_name s @ ''_output.txt'']
            = Some (File (Text (output_text
                 (eng_out (eng cfg es) @ scope_message r, eng_err (eng cfg es))))))
         \<and> console_out (snd (run_solver (Some eng) s n od i w)) = console_out w
         \<and> console_err (snd (run_solver (Some eng) s n od i w)) = console_err w
         \<and> capture (snd (run_solver (Some eng) s n od i w)) = capture w)"
proof (intro conjI impI)
  assume a: "capture w = Some ([], [])
      \<and> map_of (eng_files (eng (module_attrs w) (dir_entries (fs w) rd))) sd = Some (Dir sub)
      \<and> writable sub (simple @ ''_output.txt'')
      \<and> writable (eng_files (eng (module_attrs w) (dir_entries (fs w) rd))) ''experiment_log.txt''
      \<and> sd \<noteq> ''experiment_log.txt''"
  note r = captured_call_result [where w = w and eng = eng and rd = rd and sd = sd and sub = sub
      and simple = simple and old = old and R = "eng (module_attrs w) (dir_entries (fs w) rd)",
      OF _ refl]
  from a r show "capture (snd (captured_call eng rd [rd, ''experiment_log.txt''] simple [rd, sd] old w))
           = old" by blast
  from a r show "console_out (snd (captured_call eng rd [rd, ''experiment_log.txt''] simple [rd, sd] old w))
           = console_out w" by blast
  from a r show "console_err (snd (captured_call eng rd [rd, ''experiment_log.txt''] simple [rd, sd] old w))
           = console_err w" by blast
  from a r show "lookup (fs (snd (captured_call eng rd [rd, ''experiment_log.txt''] simple [rd, sd] old w)))
              [rd, sd, simple @ ''_output.txt'']
           = Some (File (Text (output_text
               (eng_out (eng (module_attrs w) (dir_entries (fs w) rd))
                  @ scope_message (eng_raised (eng (module_attrs w) (dir_entries (fs w) rd))),
                eng_err (eng (module_attrs w) (dir_entries (fs w) rd))))))" by blast
next
  assume b: "map_of (fs w) (run_dir_name (short_name s) i) = None
      \<and> (\<forall>cfg es. eng_files (eng cfg es) = es)
      \<and> (\<forall>cfg es. eng_raised (eng cfg es) = r)"
  then have fresh: "map_of (fs w) (run_dir_name (short_name s) i) = None"
    and quiet: "\<forall>cfg es. eng_files (eng cfg es) = es"
    and outcome: "\<forall>cfg es. eng_raised (eng cfg es) = r" by simp_all
  note r = run_solver_output [OF fresh quiet outcome, of n od]
  from r show "\<exists>cfg es. lookup (fs (snd (run_solver (Some eng) s n od i w)))
              [run_dir_name (short_name s) i, solver_dir_name s, short_name s @ ''_output.txt'']
            = Some (File (Text (output_text
                 (eng_out (eng cfg es) @ scope_message r, eng_err (eng cfg es)))))" by blast
  from r show "console_out (snd (run_solver (Some eng) s n od i w)) = console_out w" by blast
  from r show "console_err (snd (run_solver (Some eng) s n od i w)) = console_err w" by blast
  from r show "capture (snd (run_solver (Some eng) s n od i w)) = capture w" by blast
qed

theorem console_capture_persisted_witness:
  "lookup (fs (snd (captured_call silent_engine ''r'' [''r'', ''experiment_log.txt''] ''S''
                 [''r'', ''d''] None
                 (start_world\<lparr>fs := [(''r'', Dir [(''d'', Dir [])])], capture := Some ([], [])\<rparr>))))
     [''r'', ''d'', ''S_output.txt'']
    = Some (File (Text [(''=== STDOUT ==='', []),
                        (''{}'', [PStr (''simulation done  Main function executed successfully'' @ nl)]),
                        (''=== STDERR ==='', []),
                        (''{}'', [PStr []])]))
   \<and> console_out (snd (run_solver (Some failing_engine)
        ''solvers.BARGAIN_MATCH_Solver.BARGAIN_MATCH_Solver'' 5 ''test_results'' 0 start_world))
      = []
   \<and> (\<exists>cfg es. lookup (fs (snd (run_solver (Some failing_engine)
        ''solvers.BARGAIN_MATCH_Solver.BARGAIN_MATCH_Solver'' 5 ''test_results'' 0 start_world)))
        [run_dir_name (short_name ''solvers.BARGAIN_MATCH_Solver.BARGAIN_MATCH_Solver'') 0,
         solver_dir_name ''solvers.BARGAIN_MATCH_Solver.BARGAIN_MATCH_Solver'',
         short_name ''solvers.BARGAIN_MATCH_Solver.BARGAIN_MATCH_Solver'' @ ''_output.txt'']
       = Some (File (Text (output_text
            (eng_out (failing_engine cfg es)
               @ scope_message (Some (Exn ''RuntimeError'' ''solver failed'')),
             eng_err (failing_engine cfg es))))))"
proof -
  let ?w = "start_world\<lparr>fs := [(''r'', Dir [(''d'', Dir [])])], capture := Some ([], [])\<rparr>"
  let ?s = "''solvers.BARGAIN_MATCH_Solver.BARGAIN_MATCH_Solver''"
  have h: "capture ?w = Some ([], [])
      \<and> map_of (eng_files (silent_engine (module_attrs ?w) (dir_entries (fs ?w) ''r''))) ''d''
          = Some (Dir [])
      \<and> writable [] (''S'' @ ''_output.txt'')
      \<and> writable (eng_files (silent_engine (module_attrs ?w) (dir_entries (fs ?w) ''r'')))
          ''experiment_log.txt''
      \<and> ''d'' \<noteq> ''experiment_log.txt''"
    by (simp add: silent_engine_def dir_entries_def)
  from h console_capture_persisted [of ?w silent_engine "''r''" "''d''" "[]" "''S''" None]
  have "lookup (fs (snd (captured_call silent_engine ''r'' [''r'', ''experiment_log.txt''] ''S''
                 [''r'', ''d''] None ?w)))
     [''r'', ''d'', ''S'' @ ''_output.txt'']
    = Some (File (Text (output_text
               (eng_out (silent_engine (module_attrs ?w) (dir_entries (fs ?w) ''r''))
                  @ scope_message (eng_raised (silent_engine (module_attrs ?w) (dir_entries (fs ?w) ''r''))),
                eng_err (silent_engine (module_attrs ?w) (dir_entries (fs ?w) ''r''))))))"
    by blast
  then have c1: "lookup (fs (snd (captured_call silent_engine ''r'' [''r'', ''experiment_log.txt''] ''S''
                 [''r'', ''d''] None ?w)))
     [''r'', ''d'', ''S_output.txt'']
    = Some (File (Text [(''=== STDOUT ==='', []),
                        (''{}'', [PStr (''simulation done  Main function executed successfully'' @ nl)]),
                        (''=== STDERR ==='', []),
                        (''{}'', [PStr []])]))"
    by (simp add: silent_engine_def output_text_def)
  have g: "map_of (fs start_world) (run_dir_name (short_name ?s) 0) = None
      \<and> (\<forall>cfg es. eng_files (failing_engine cfg es) = es)
      \<and> (\<forall>cfg es. eng_raised (failing_engine cfg es) = Some (Exn ''RuntimeError'' ''solver failed''))"
    by (simp add: start_world_def failing_engine_def)
  note t = console_capture_persisted [where w = start_world and s = ?s and i = 0
      and eng = failing_engine and r = "Some (Exn ''RuntimeError'' ''solver failed'')"
      and n = 5 and od = "''test_results''"]
  from g t have c2: "console_out (snd (run_solver (Some failing_engine) ?s 5 ''test_results'' 0
      start_world)) = console_out start_world"
    by blast
  from g t have c3: "\<exists>cfg es. lookup (fs (snd (run_solver (Some failing_engine) ?s 5
        ''test_results'' 0 start_world)))
        [run_dir_name (short_name ?s) 0, solver_dir_name ?s, short_name ?s @ ''_output.txt'']
       = Some (File (Text (output_text
            (eng_out (failing_engine cfg es)
               @ scope_message (Some (Exn ''RuntimeError'' ''solver failed'')),
             eng_err (failing_engine cfg es)))))"
    by blast
  from c2 have c2': "console_out (snd (run_solver (Some failing_engine) ?s 5 ''test_results'' 0
      start_world)) = []"
    by (simp add: start_world_def)
  from c1 c2' c3 show ?thesis by blast
qed

text \<open>
  Claim C9 as stated fails for the executor of the batch:
  \<^verbatim>\<open>run_experiment_for_solver\<close> calls the entry point with the streams as they are.
  What the entry point prints reaches the console, and the run directory holds the log,
  the configuration and the two fallback files, and no output file.
\<close>

theorem executor_does_not_capture:
  "eng_out (silent_engine (module_attrs start_world) []) = ''simulation done''
   \<and> console_out (snd (run_experiment_for_solver (Some silent_engine)
        ''solvers.OLMA_Solver_perfect.OLMA_Solver'' 5 ''out'' 0 start_world))
      = ''simulation done''
   \<and> walk [] (fs (snd (run_experiment_for_solver (Some silent_engine)
        ''solvers.OLMA_Solver_perfect.OLMA_Solver'' 5 ''out'' 0 start_world)))
      = [[''OLMA_Solver_run_1'', ''experiment_log.txt''],
         [''OLMA_Solver_run_1'', ''experiment_config.json''],
         [''OLMA_Solver_run_1'', ''basic_summary.json''],
         [''OLMA_Solver_run_1'', ''error_summary.json'']]"
  by code_simp

section \<open>The batch coordinator: resilience\<close>

subsection \<open>Names of files and run directories\<close>

lemma show_nat_last: "show_nat k \<noteq> [] \<and> last (show_nat k) \<in> set ''0123456789''"
proof (induction k rule: show_nat.induct)
  case (1 n)
  have "n mod 10 < length ''0123456789''" by simp
  then have m: "''0123456789'' ! (n mod 10) \<in> set ''0123456789''" by (rule nth_mem)
  have "n < 10 \<Longrightarrow> n mod 10 = n" by simp
  with m show ?case by (subst show_nat.simps, subst (2) show_nat.simps) (auto simp del: set_simps)
qed

lemma digit_end_run_dir [simp]: "digit_end (run_dir_name n i)"
  using show_nat_last [of "i + 1"] by (simp add: digit_end_def run_dir_name_def)

lemma digit_end_run_1 [simp]: "digit_end (n @ ''_run_1'')"
  by (simp add: digit_end_def)

lemma file_name_ok:
  "n \<noteq> [] \<Longrightarrow> last n \<notin> set ''0123456789s'' \<Longrightarrow> \<not> digit_end n \<and> n \<noteq> ''metrics''"
  by (auto simp: digit_end_def)

subsection \<open>File operations keep the output directory in order\<close>

lemma ok_update: "output_dir_ok es \<Longrightarrow> entry_ok (k, v) \<Longrightarrow> output_dir_ok (AList.update k v es)"
  by (induction es) (auto simp: output_dir_ok_def)

lemma ok_lookup: "output_dir_ok es \<Longrightarrow> map_of es k = Some v \<Longrightarrow> entry_ok (k, v)"
  by (induction es) (auto simp: output_dir_ok_def split: if_splits)

lemma ok_writable: "output_dir_ok es \<Longrightarrow> \<not> digit_end n \<Longrightarrow> n \<noteq> ''metrics'' \<Longrightarrow> writable es n"
  using ok_lookup [of es n] by (auto simp: writable_def split: option.splits node.splits)

lemma makedirs_exn: "makedirs_at es p = Inl e \<Longrightarrow> is_Exception e"
  by (induction es p rule: makedirs_at.induct)
     (auto simp: makedirs_at.simps bnd_def split: option.splits node.splits sum.splits if_splits)

lemma write_exn: "write_at es p c = Inl e \<Longrightarrow> is_Exception e"
  by (induction es p c rule: write_at.induct)
     (auto simp: write_at.simps bnd_def split: option.splits node.splits sum.splits if_splits)

lemma copy2_exn: "copy2 es src dst = Inl e \<Longrightarrow> is_Exception e"
  by (auto simp: copy2_def Let_def write_exn split: option.splits node.splits if_splits)

lemma makedirs_shape:
  "makedirs_at es (d # p) = Inr es' \<Longrightarrow> \<exists>sub. es' = AList.update d (Dir sub) es"
  by (auto simp: makedirs_at.simps bnd_def split: option.splits node.splits sum.splits)

lemma write_shape:
  "p \<noteq> [] \<Longrightarrow> write_at es (d # p) c = Inr es' \<Longrightarrow> \<exists>sub. es' = AList.update d (Dir sub) es"
  by (auto simp: write_at.simps bnd_def split: option.splits node.splits sum.splits)

lemma ok_makedirs:
  "output_dir_ok es \<Longrightarrow> digit_end d \<Longrightarrow> makedirs_at es (d # p) = Inr es' \<Longrightarrow> output_dir_ok es'"
  using makedirs_shape [of es d p es'] by (auto intro: ok_update)

lemma ok_write:
  "output_dir_ok es \<Longrightarrow> digit_end d \<Longrightarrow> p \<noteq> [] \<Longrightarrow> write_at es (d # p) c = Inr es'
   \<Longrightarrow> output_dir_ok es'"
  using write_shape [of p es d c es'] by (auto intro: ok_update)

lemma ok_copy2:
  "output_dir_ok es \<Longrightarrow> digit_end d \<Longrightarrow> p \<noteq> [] \<Longrightarrow> copy2 es src (d # p) = Inr es'
   \<Longrightarrow> output_dir_ok es'"
  by (auto simp: copy2_def Let_def split: option.splits node.splits if_splits
        dest: ok_write [where p = p] ok_write [where p = "p @ [last src]"])

subsection \<open>Safe statements\<close>

lemma safe_ret [intro!]: "safe c (ret x)"
  by (simp add: safe_def ret_def)

lemma safe_raise [intro!]: "is_Exception e \<Longrightarrow> safe c (raise_exn e)"
  by (simp add: safe_def raise_exn_def)

lemma safe_seq [intro!]: "safe c m \<Longrightarrow> (\<And>x. safe c (f x)) \<Longrightarrow> safe c (seq m f)"
  unfolding safe_def seq_def
  by (auto split: prod.splits sum.splits)

lemma safe_try_except [intro!]:
  "safe c m \<Longrightarrow> (\<And>e. safe c (h e)) \<Longrightarrow> safe c (try_except m h)"
  unfolding safe_def try_except_def
  by (auto split: prod.splits sum.splits)

lemma safe_try_finally [intro!]:
  "safe c m \<Longrightarrow> safe c fin \<Longrightarrow> safe c (try_finally m fin)"
  unfolding safe_def try_finally_def
  by (auto split: prod.splits sum.splits)

lemma safe_if [intro!]: "safe c a \<Longrightarrow> safe c b \<Longrightarrow> safe c (if t then a else b)"
  by simp

lemma safe_for_each [intro!]: "(\<And>x. safe c (body x)) \<Longrightarrow> safe c (for_each xs body)"
  by (induction xs) auto

lemma safe_fs_step:
  "(\<And>es es'. output_dir_ok es \<Longrightarrow> f es = Inr es' \<Longrightarrow> output_dir_ok es')
   \<Longrightarrow> (\<And>es e. f es = Inl e \<Longrightarrow> is_Exception e) \<Longrightarrow> safe c (fs_step f)"
  by (auto simp: safe_def fs_step_def frame_def split: sum.splits)

lemma safe_makedirs [intro!]: "digit_end d \<Longrightarrow> safe c (os_makedirs (d # p))"
  unfolding os_makedirs_def
  by (rule safe_fs_step) (auto intro: ok_makedirs makedirs_exn)

lemma safe_write_at: "digit_end d \<Longrightarrow> p \<noteq> [] \<Longrightarrow> safe c (fs_step (\<lambda>es. write_at es (d # p) (g es)))"
  by (rule safe_fs_step) (auto intro: ok_write write_exn)

lemma safe_fs_prims [intro!]:
  "digit_end d \<Longrightarrow> safe c (write_text (d # x # p) ls)"
  "digit_end d \<Longrightarrow> safe c (append_text (d # x # p) ls)"
  "digit_end d \<Longrightarrow> safe c (json_dump (d # x # p) v)"
  unfolding write_text_def append_text_def json_dump_def append_at_def
  by (rule safe_write_at; simp)+

lemma safe_copy2 [intro!]: "digit_end d \<Longrightarrow> safe c (shutil_copy2 src (d # x # p))"
  unfolding shutil_copy2_def
  by (rule safe_fs_step) (auto intro: ok_copy2 copy2_exn)

subsection \<open>The run executor is safe\<close>

lemma inject_ratio_exn: "inject_ratio r = Inl e \<Longrightarrow> is_Exception e"
  by (auto simp: inject_ratio_def bnd_def py_gt_zero_def py_truediv_def
      split: option.splits sum.splits if_splits)

lemma safe_prims [intro!]:
  "safe c (json_load p)"
  "safe c strftime" "safe c (list_files rd)" "safe c get_attrs" "safe c (modify_attrs g)"
  "safe c (py_print str)" "safe c (solver_results_append r)"
  "safe c import_traceback" "safe c get_capture" "safe c (set_capture cap)"
  "safe c read_attrs" "safe c (write_attrs orig)"
  by (auto simp: json_load_def strftime_def list_files_def get_attrs_def modify_attrs_def
        py_print_def emit_def solver_results_append_def import_traceback_def
        get_capture_def set_capture_def read_attrs_def write_attrs_def safe_def frame_def
      split: option.splits node.splits fcontent.splits)

lemma safe_import [intro!]: "safe c (import_main mm)"
  by (auto simp: import_main_def safe_def ret_def raise_exn_def split: option.splits)

lemma safe_lift_ratio [intro!]: "safe c (lift (inject_ratio r))"
  by (auto simp: safe_def lift_def dest: inject_ratio_exn)

lemma safe_call_main [intro!]:
  "polite (Some eng) \<Longrightarrow> digit_end d \<Longrightarrow> safe c (call_main eng d)"
proof -
  assume p: "polite (Some eng)" and d: "digit_end d"
  have r: "\<And>cfg es e. eng_raised (eng cfg es) = Some e \<Longrightarrow> is_Exception e"
    using p unfolding polite_def by (metis raises_only_Exception.simps(2))
  show ?thesis
    unfolding safe_def call_main_def Let_def frame_def using d
    by (auto simp: emit_def split: option.splits intro: ok_update dest: r)
qed

lemma safe_after_import:
  "(\<And>eng. mm = Some eng \<Longrightarrow> safe c (f eng)) \<Longrightarrow> safe c (seq (import_main mm) f)"
  by (cases mm) (auto simp: import_main_def safe_def seq_def raise_exn_def ret_def)

lemma safe_session [intro!]:
  "polite (Some eng) \<Longrightarrow> digit_end rd \<Longrightarrow> safe c (engine_session eng rd run_dir n s (rd # x # p))"
  unfolding engine_session_def Let_def by auto

lemma safe_load_summary [intro!]:
  "digit_end rd \<Longrightarrow> safe c (load_summary sp rd s i (rd # x # p))"
  unfolding load_summary_def Let_def
  by (auto intro!: safe_seq split: pyval.splits)

lemma safe_resolve [intro!]: "safe c (resolve_artifact s n od i)"
  unfolding resolve_artifact_def Let_def
  by (auto intro!: safe_seq split: option.splits)

lemma safe_error_fallback [intro!]: "safe c (error_fallback s n i e)"
  unfolding error_fallback_def Let_def by auto

lemma safe_run [intro!]: "polite mm \<Longrightarrow> safe c (run_experiment_for_solver mm s n od i)"
  unfolding run_experiment_for_solver_def Let_def
  by (intro safe_seq safe_try_except safe_makedirs safe_fs_prims safe_after_import safe_prims
      safe_resolve safe_error_fallback digit_end_run_dir safe_session) simp

subsection \<open>The executor returns a record that is not empty\<close>

lemma yields_ret [intro!]: "Q x \<Longrightarrow> yields Q (ret x)"
  by (simp add: yields_def ret_def)

lemma yields_seq [intro!]: "(\<And>x. yields Q (f x)) \<Longrightarrow> yields Q (seq m f)"
  unfolding yields_def seq_def by (auto split: prod.splits sum.splits)

lemma yields_try_except [intro!]:
  "yields Q m \<Longrightarrow> (\<And>e. yields Q (h e)) \<Longrightarrow> yields Q (try_except m h)"
  unfolding yields_def try_except_def
  by (auto split: prod.splits sum.splits if_splits) (metis fst_conv)+

lemma update_nonempty: "AList.update k v al \<noteq> []"
  by (cases al) auto

lemma yields_load_summary: "yields (\<lambda>r. r \<noteq> []) (load_summary sp rd s i lp)"
  unfolding load_summary_def Let_def yields_def seq_def ret_def raise_exn_def
  by (auto simp: update_nonempty split: prod.splits sum.splits pyval.splits if_splits)

lemma yields_resolve: "yields (\<lambda>r. r \<noteq> []) (resolve_artifact s n od i)"
proof -
  have part: "\<And>sp rd lp. yields (\<lambda>returned. \<forall>r. returned = Some r \<longrightarrow> r \<noteq> [])
      (try_except (seq (load_summary sp rd s i lp) (\<lambda>summary. ret (Some summary)))
         (\<lambda>json_error. seq (append_text lp
               [(''reading summary.json failed: {}'', [PStr (exn_msg json_error)])])
            (\<lambda>u. ret None)))"
    using yields_load_summary
    unfolding yields_def try_except_def seq_def ret_def
    by (auto split: prod.splits sum.splits if_splits) (metis fst_conv)
  have mid: "\<And>m f. yields (\<lambda>returned. \<forall>r. returned = Some r \<longrightarrow> r \<noteq> []) m
      \<Longrightarrow> (\<And>x. (\<forall>r. x = Some r \<longrightarrow> r \<noteq> []) \<Longrightarrow> yields (\<lambda>r. r \<noteq> []) (f x))
      \<Longrightarrow> yields (\<lambda>r::pydict. r \<noteq> []) (seq m f)"
    unfolding yields_def seq_def
    by (auto split: prod.splits sum.splits) (metis fst_conv)+
  have first: "\<And>found rd lp. yields (\<lambda>returned. \<forall>r. returned = Some r \<longrightarrow> r \<noteq> [])
      (case found of
         Some sp \<Rightarrow>
           try_except (seq (load_summary sp rd s i lp) (\<lambda>summary. ret (Some summary)))
             (\<lambda>json_error. seq (append_text lp
                   [(''reading summary.json failed: {}'', [PStr (exn_msg json_error)])])
                (\<lambda>u. ret None))
       | None \<Rightarrow> seq (append_text lp [(''warning: no summary.json found'', [])]) (\<lambda>u. ret None))"
    by (auto intro!: part split: option.splits)
  show ?thesis
    unfolding resolve_artifact_def Let_def
    apply (rule yields_seq)
    apply (rule yields_seq)
    apply (rule mid)
     apply (rule first)
    apply (auto simp: basic_summary_partial_def split: option.splits)
    done
qed

lemma yields_run: "yields (\<lambda>r. r \<noteq> []) (run_experiment_for_solver mm s n od i)"
  unfolding run_experiment_for_solver_def Let_def error_fallback_def
  by (intro yields_seq yields_try_except yields_resolve yields_ret)
     (simp add: basic_summary_error_def)

subsection \<open>One run of the coordinator\<close>

lemma update_update: "AList.update k v (AList.update k v' al) = AList.update k v al"
  by (induction al) auto

lemma error_log_name:
  "\<not> digit_end (a @ ''_error.log'') \<and> a @ ''_error.log'' \<noteq> ''metrics''"
  by (rule file_name_ok) simp_all

lemma record_and_log:
  assumes f: "frame c w" and k: "map_of c n = Some rs"
    and nm: "\<not> digit_end name \<and> name \<noteq> ''metrics''"
  shows "fst ((seq (solver_results_append r) (\<lambda>u.
              seq (corpus_append n r) (\<lambda>u.
              seq strftime (\<lambda>timestamp.
              seq (write_text [name] (ls timestamp)) (\<lambda>u.
              import_traceback))))) w) = Inr ()
       \<and> frame (AList.update n (rs @ [r]) c)
           (snd ((seq (solver_results_append r) (\<lambda>u.
              seq (corpus_append n r) (\<lambda>u.
              seq strftime (\<lambda>timestamp.
              seq (write_text [name] (ls timestamp)) (\<lambda>u.
              import_traceback))))) w))"
proof -
  from f have ok: "output_dir_ok (fs w)" and c: "all_results w = c" by (simp_all add: frame_def)
  from ok nm have wr: "writable (fs w) name" by (simp add: ok_writable)
  have ok': "output_dir_ok (AList.update name (File (Text (ls (clock w)))) (fs w))"
    using ok nm by (auto intro: ok_update)
  show ?thesis
    using c k wr ok'
    by (simp add: seq_def solver_results_append_def corpus_append_def strftime_def write_text_def
        fs_step_def import_traceback_def write_at_file frame_def)
qed

lemma run_once_total:
  assumes f: "frame c w" and k: "map_of c (short_name s) = Some rs" and p: "polite mm"
  shows "\<exists>r. fst (run_once mm s n od i w) = Inr ()
           \<and> frame (AList.update (short_name s) (rs @ [r]) c) (snd (run_once mm s n od i w))"
proof -
  let ?X = "run_experiment_for_solver mm s n od i"
  let ?h = "\<lambda>run_error. seq (solver_results_append
                     (run_error_result s i n run_error)) (\<lambda>u.
              seq (corpus_append (short_name s)
                     (run_error_result s i n run_error)) (\<lambda>u.
              seq strftime (\<lambda>timestamp.
              seq (write_text [short_name s @ ''_run_'' @ show_nat (i + 1) @ ''_error.log'']
                     [(''{} - run failed: {}'', [PStr timestamp, PStr (exn_msg run_error)]),
                      (''Traceback:'', []),
                      (''{}'', [PStr (format_exc run_error)])]) (\<lambda>u.
              import_traceback))))"
  obtain res w1 where X: "?X w = (res, w1)" by (cases "?X w")
  from safe_run [OF p, of c s n od i] f X
  have f1: "frame c w1" and ex: "\<And>e. res = Inl e \<Longrightarrow> is_Exception e"
    unfolding safe_def by (metis snd_conv, metis fst_conv)
  have nm: "\<not> digit_end (short_name s @ ''_run_'' @ show_nat (i + 1) @ ''_error.log'')
      \<and> short_name s @ ''_run_'' @ show_nat (i + 1) @ ''_error.log'' \<noteq> ''metrics''"
    using error_log_name [of "short_name s @ ''_run_'' @ show_nat (i + 1)"] by simp
  have handler: "\<And>e. fst (?h e w1) = Inr ()
      \<and> frame (AList.update (short_name s) (rs @ [run_error_result s i n e]) c) (snd (?h e w1))"
    by (rule record_and_log [OF f1 k nm])
  show ?thesis
  proof (cases res)
    case (Inl e)
    with ex have "is_Exception e" by simp
    with X Inl have "run_once mm s n od i w = ?h e w1"
      by (simp add: run_once_def Let_def try_except_def seq_def)
    with handler [of e] show ?thesis by auto
  next
    case (Inr r)
    with yields_run [of mm s n od i] X have ne: "r \<noteq> []"
      unfolding yields_def by (metis fst_conv)
    show ?thesis
    proof (cases "inject_ratio r")
      case (Inl e)
      then have "is_Exception e" by (rule inject_ratio_exn)
      with X Inr Inl ne have "run_once mm s n od i w = ?h e w1"
        by (simp add: run_once_def Let_def try_except_def seq_def lift_def)
      with handler [of e] show ?thesis by auto
    next
      case r': (Inr r')
      from f1 have c1: "all_results w1 = c" and ok1: "output_dir_ok (fs w1)"
        by (simp_all add: frame_def)
      from X Inr r' ne c1 k ok1
      have "fst (run_once mm s n od i w) = Inr ()
            \<and> frame (AList.update (short_name s) (rs @ [r']) c) (snd (run_once mm s n od i w))"
        by (simp add: run_once_def Let_def try_except_def seq_def lift_def
            solver_results_append_def corpus_append_def frame_def)
      then show ?thesis by blast
    qed
  qed
qed

lemma runs_total:
  assumes p: "polite mm"
  shows "frame c w \<Longrightarrow> map_of c (short_name s) = Some rs \<Longrightarrow>
     \<exists>rs'. length rs' = length idxs
        \<and> fst (for_each idxs (run_once mm s n od) w) = Inr ()
        \<and> frame (AList.update (short_name s) (rs @ rs') c)
            (snd (for_each idxs (run_once mm s n od) w))"
proof (induction idxs arbitrary: w c rs)
  case Nil
  then show ?case by (simp add: ret_def update_same_value)
next
  case (Cons i idxs)
  from run_once_total [OF Cons.prems(1) Cons.prems(2) p, of n od i]
  obtain r where r: "fst (run_once mm s n od i w) = Inr ()"
    and f1: "frame (AList.update (short_name s) (rs @ [r]) c) (snd (run_once mm s n od i w))"
    by blast
  have k1: "map_of (AList.update (short_name s) (rs @ [r]) c) (short_name s) = Some (rs @ [r])"
    by (rule map_of_update_same)
  from Cons.IH [OF f1 k1]
  obtain rs' where l: "length rs' = length idxs"
    and r2: "fst (for_each idxs (run_once mm s n od) (snd (run_once mm s n od i w))) = Inr ()"
    and f2: "frame (AList.update (short_name s) ((rs @ [r]) @ rs')
                      (AList.update (short_name s) (rs @ [r]) c))
               (snd (for_each idxs (run_once mm s n od) (snd (run_once mm s n od i w))))"
    by blast
  have step: "for_each (i # idxs) (run_once mm s n od) w
      = for_each idxs (run_once mm s n od) (snd (run_once mm s n od i w))"
    using r by (cases "run_once mm s n od i w") (simp add: seq_def)
  have "length (r # rs') = length (i # idxs)" using l by simp
  moreover have "fst (for_each (i # idxs) (run_once mm s n od) w) = Inr ()"
    using step r2 by simp
  moreover have "frame (AList.update (short_name s) (rs @ r # rs') c)
      (snd (for_each (i # idxs) (run_once mm s n od) w))"
    using step f2 by (simp add: update_update)
  ultimately show ?case by blast
qed

subsection \<open>One solver and the loop over the solvers\<close>

lemma summary_name:
  "\<not> digit_end (a @ ''_summary.json'') \<and> a @ ''_summary.json'' \<noteq> ''metrics''"
  by (rule file_name_ok) simp_all

lemma top_file_write:
  assumes f: "frame c w" and nm: "\<not> digit_end name \<and> name \<noteq> ''metrics''"
  shows "fs_step (\<lambda>es. write_at es [name] content) w
     = (Inr (), w\<lparr>fs := AList.update name (File content) (fs w)\<rparr>)
   \<and> frame c (w\<lparr>fs := AList.update name (File content) (fs w)\<rparr>)"
proof -
  from f have ok: "output_dir_ok (fs w)" and c: "all_results w = c" by (simp_all add: frame_def)
  from ok nm have wr: "writable (fs w) name" by (simp add: ok_writable)
  have ok': "output_dir_ok (AList.update name (File content) (fs w))"
    using ok nm by (auto intro: ok_update)
  show ?thesis using wr ok' c by (simp add: fs_step_def write_at_file frame_def)
qed

lemma solver_once_total:
  assumes f: "frame c w" and k: "map_of c (short_name s) = Some rs" and p: "polite mm"
  shows "\<exists>rs'. length rs' = num_runs
           \<and> fst (solver_once mm num_runs n od s w) = Inr ()
           \<and> frame (AList.update (short_name s) (rs @ rs') c)
               (snd (solver_once mm num_runs n od s w))"
proof -
  let ?w0 = "w\<lparr>solver_results := []\<rparr>"
  let ?loop = "for_each [0..<num_runs] (run_once mm s n od)"
  from f have f0: "frame c ?w0" by (simp add: frame_def)
  from runs_total [OF p f0 k, of "[0..<num_runs]" n od]
  obtain rs' where l: "length rs' = num_runs" and r: "fst (?loop ?w0) = Inr ()"
    and f1: "frame (AList.update (short_name s) (rs @ rs') c) (snd (?loop ?w0))"
    by auto
  obtain w1 where w1: "?loop ?w0 = (Inr (), w1)" using r by (cases "?loop ?w0") auto
  with f1 have f1': "frame (AList.update (short_name s) (rs @ rs') c) w1" by simp
  from top_file_write [OF f1' summary_name [of "short_name s"],
      of "Json (PList (map PDict (solver_results w1)))"]
  have dump: "json_dump [short_name s @ ''_summary.json''] (PList (map PDict (solver_results w1))) w1
     = (Inr (), w1\<lparr>fs := AList.update (short_name s @ ''_summary.json'')
           (File (Json (PList (map PDict (solver_results w1))))) (fs w1)\<rparr>)"
    and f2: "frame (AList.update (short_name s) (rs @ rs') c)
       (w1\<lparr>fs := AList.update (short_name s @ ''_summary.json'')
           (File (Json (PList (map PDict (solver_results w1))))) (fs w1)\<rparr>)"
    by (simp_all add: json_dump_def)
  have "fst (solver_once mm num_runs n od s w) = Inr ()
      \<and> frame (AList.update (short_name s) (rs @ rs') c) (snd (solver_once mm num_runs n od s w))"
    using w1 dump f1' f2
    by (simp add: solver_once_def Let_def try_except_def seq_def ret_def)
  with l show ?thesis by blast
qed

lemma records_update:
  "records (AList.update k v c) x = (if x = k then v else records c x)"
  by (simp add: records_def update_conv')

lemma dom_update_present:
  "map_of c k = Some v \<Longrightarrow> dom (map_of (AList.update k v' c)) = dom (map_of c)"
  by (auto simp: update_conv' split: if_splits)

lemma solvers_total:
  assumes p: "polite mm"
  shows "frame c w \<Longrightarrow> short_name ` set ss \<subseteq> dom (map_of c) \<Longrightarrow>
     \<exists>c'. fst (for_each ss (solver_once mm num_runs n od) w) = Inr ()
        \<and> frame c' (snd (for_each ss (solver_once mm num_runs n od) w))
        \<and> (\<forall>x. length (records c' x)
                = length (records c x) + num_runs * count_list (map short_name ss) x)"
proof (induction ss arbitrary: w c)
  case Nil
  then show ?case by (auto simp: ret_def)
next
  case (Cons s ss)
  let ?one = "solver_once mm num_runs n od s"
  from Cons.prems(2) obtain rs where k: "map_of c (short_name s) = Some rs" by auto
  from solver_once_total [OF Cons.prems(1) k p, of num_runs n od]
  obtain rs' where l: "length rs' = num_runs" and r: "fst (?one w) = Inr ()"
    and f1: "frame (AList.update (short_name s) (rs @ rs') c) (snd (?one w))"
    by blast
  let ?c1 = "AList.update (short_name s) (rs @ rs') c"
  have d1: "short_name ` set ss \<subseteq> dom (map_of ?c1)"
    using Cons.prems(2) dom_update_present [OF k, of "rs @ rs'"] by auto
  from Cons.IH [OF f1 d1]
  obtain c' where r2: "fst (for_each ss (solver_once mm num_runs n od) (snd (?one w))) = Inr ()"
    and f2: "frame c' (snd (for_each ss (solver_once mm num_runs n od) (snd (?one w))))"
    and n2: "\<And>x. length (records c' x)
                = length (records ?c1 x) + num_runs * count_list (map short_name ss) x"
    by blast
  have step: "for_each (s # ss) (solver_once mm num_runs n od) w
      = for_each ss (solver_once mm num_runs n od) (snd (?one w))"
    using r by (cases "?one w") (simp add: seq_def)
  have rk: "records c (short_name s) = rs" using k by (simp add: records_def)
  have "\<forall>x. length (records c' x)
      = length (records c x) + num_runs * count_list (map short_name (s # ss)) x"
    using n2 l rk by (auto simp: records_update)
  with step r2 f2 show ?case by auto
qed

lemma init_results_fold:
  "map_of (fold (\<lambda>solver_name d. AList.update (short_name solver_name) [] d) ss d0) x
     = (if x \<in> short_name ` set ss then Some [] else map_of d0 x)"
  by (induction ss arbitrary: d0) (auto simp: update_conv')

lemma init_results_map:
  "map_of (init_results ss) x = (if x \<in> short_name ` set ss then Some [] else None)"
  by (simp add: init_results_def init_results_fold)

subsection \<open>The pass after the solvers\<close>

lemma safe_log_traceback [intro!]: "digit_end d \<Longrightarrow> safe c (log_traceback [d, x] e)"
proof -
  assume d: "digit_end d"
  have a: "safe c (append_text [d, x]
             [(''error: {}'', [PStr (exn_msg e)]), (''Traceback:'', []),
              (''{}'', [PStr (format_exc e)])])"
    using d by auto
  have b: "safe c (seq (append_text [d, x] [(''error: {}'', [PStr (exn_msg e)]), (''Traceback:'', [])])
             (\<lambda>u. raise_exn (Exn ''UnboundLocalError'' ''traceback'')))"
    using d by auto
  show ?thesis
    using a b unfolding safe_def log_traceback_def by auto
qed

lemma safe_direct_session [intro!]:
  "polite (Some eng) \<Longrightarrow> digit_end rd
   \<Longrightarrow> safe c (direct_session eng rd [rd, l] sn [rd, sd] old orig)"
  unfolding direct_session_def by auto

lemma safe_direct_execution: "polite mm \<Longrightarrow> safe c (direct_execution mm s n od)"
  unfolding direct_execution_def Let_def
  by (intro safe_seq safe_try_except safe_makedirs safe_fs_prims safe_after_import safe_prims
      safe_direct_session digit_end_run_1)
     (auto split: option.splits)

lemma reconcile_total:
  assumes p: "polite mm" and f: "frame c w"
  shows "fst (reconcile mm n od s w) = Inr () \<and> frame c (snd (reconcile mm n od s w))"
proof -
  let ?d = "direct_execution mm s n od"
  obtain res w1 where X: "?d w = (res, w1)" by (cases "?d w")
  from safe_direct_execution [OF p, of c s n od] f X
  have f1: "frame c w1" and ex: "\<And>e. res = Inl e \<Longrightarrow> is_Exception e"
    unfolding safe_def by (metis snd_conv, metis fst_conv)
  show ?thesis
    using f f1 ex X
    by (cases res) (auto simp: reconcile_def try_except_def import_traceback_def frame_def)
qed

lemma reconcile_loop:
  assumes p: "polite mm"
  shows "frame c w \<Longrightarrow> fst (for_each ss (reconcile mm n od) w) = Inr ()
           \<and> frame c (snd (for_each ss (reconcile mm n od) w))"
proof (induction ss arbitrary: w)
  case Nil
  then show ?case by (simp add: ret_def)
next
  case (Cons s ss)
  from reconcile_total [OF p Cons.prems, of n od s]
  have r: "fst (reconcile mm n od s w) = Inr ()" and f1: "frame c (snd (reconcile mm n od s w))"
    by simp_all
  have step: "for_each (s # ss) (reconcile mm n od) w
      = for_each ss (reconcile mm n od) (snd (reconcile mm n od s w))"
    using r by (cases "reconcile mm n od s w") (simp add: seq_def)
  from Cons.IH [OF f1] step show ?case by simp
qed

subsection \<open>The exports\<close>

lemma files_writable: "list_all is_file sub \<Longrightarrow> writable sub name"
  by (induction sub) (auto simp: writable_def split: node.splits)

lemma files_update: "list_all is_file sub \<Longrightarrow> list_all is_file (AList.update k (File c) sub)"
  by (induction sub) auto

lemma metrics_files:
  assumes f: "frame c w" and m: "map_of (fs w) ''metrics'' = Some (Dir sub)"
  shows "list_all is_file sub"
proof -
  from f have "output_dir_ok (fs w)" by (simp add: frame_def)
  from ok_lookup [OF this m] show ?thesis by (simp add: digit_end_def)
qed

lemma metrics_write:
  assumes f: "frame c w" and m: "map_of (fs w) ''metrics'' = Some (Dir sub)"
  shows "fs_step (\<lambda>es. write_at es [''metrics'', name] content) w
     = (Inr (), w\<lparr>fs := AList.update ''metrics'' (Dir (AList.update name (File content) sub)) (fs w)\<rparr>)
   \<and> frame c (w\<lparr>fs := AList.update ''metrics'' (Dir (AList.update name (File content) sub)) (fs w)\<rparr>)"
proof -
  from f have ok: "output_dir_ok (fs w)" and c: "all_results w = c" by (simp_all add: frame_def)
  have fl: "list_all is_file sub" by (rule metrics_files [OF f m])
  then have wr: "writable sub name" by (rule files_writable)
  have "list_all is_file (AList.update name (File content) sub)" using fl by (rule files_update)
  then have ok': "output_dir_ok (AList.update ''metrics'' (Dir (AList.update name (File content) sub)) (fs w))"
    using ok by (auto intro: ok_update)
  show ?thesis
    using m wr ok' c by (simp add: fs_step_def write_at_dir write_at_file bnd_def frame_def)
qed

lemma export_metric_total:
  assumes f: "frame c w" and m: "map_of (fs w) ''metrics'' = Some (Dir sub)"
  shows "\<exists>sub'. fst (export_metric metric c w) = Inr ()
      \<and> frame c (snd (export_metric metric c w))
      \<and> map_of (fs (snd (export_metric metric c w))) ''metrics'' = Some (Dir sub')
      \<and> map_of sub' (fst metric @ ''.csv'')
          = Some (File (Csv (fst (metric_table (snd metric) c)) (snd (metric_table (snd metric) c))))
      \<and> (\<forall>x. x \<noteq> fst metric @ ''.csv'' \<and> x \<noteq> fst metric @ ''.json''
             \<longrightarrow> map_of sub' x = map_of sub x)"
proof -
  let ?csv = "Csv (fst (metric_table (snd metric) c)) (snd (metric_table (snd metric) c))"
  let ?sub1 = "AList.update (fst metric @ ''.csv'') (File ?csv) sub"
  let ?w1 = "w\<lparr>fs := AList.update ''metrics'' (Dir ?sub1) (fs w)\<rparr>"
  from metrics_write [OF f m, of "fst metric @ ''.csv''" ?csv]
  have s1: "fs_step (\<lambda>es. write_at es [''metrics'', fst metric @ ''.csv''] ?csv) w = (Inr (), ?w1)"
    and f1: "frame c ?w1" by simp_all
  have m1: "map_of (fs ?w1) ''metrics'' = Some (Dir ?sub1)" by (simp add: map_of_update_same)
  show ?thesis
  proof (cases "has_data (snd metric) c")
    case False
    with s1 f1 m1 show ?thesis
      by (auto simp: export_metric_def Let_def update_conv')
  next
    case True
    let ?js = "Json (PDict (map (\<lambda>item. (fst item, PList (snd item)))
                                    (collect_metric_data (snd metric) c)))"
    let ?sub2 = "AList.update (fst metric @ ''.json'') (File ?js) ?sub1"
    let ?w2 = "?w1\<lparr>fs := AList.update ''metrics'' (Dir ?sub2) (fs ?w1)\<rparr>"
    from metrics_write [OF f1 m1, of "fst metric @ ''.json''" ?js]
    have s2: "fs_step (\<lambda>es. write_at es [''metrics'', fst metric @ ''.json''] ?js) ?w1 = (Inr (), ?w2)"
      and f2: "frame c ?w2" by simp_all
    have e: "export_metric metric c w = (Inr (), ?w2)"
      using True s1 s2 by (simp add: export_metric_def Let_def try_except_def seq_def json_dump_def)
    have ne: "fst metric @ ''.csv'' \<noteq> fst metric @ ''.json''" by simp
    show ?thesis
      using f2 ne unfolding e
      by (intro exI [of _ ?sub2]) (auto simp: update_conv')
  qed
qed

lemma exports_total:
  "frame c w \<Longrightarrow> map_of (fs w) ''metrics'' = Some (Dir sub) \<Longrightarrow> distinct (map fst ms) \<Longrightarrow>
   \<exists>sub'. fst (for_each ms (\<lambda>metric. export_metric metric c) w) = Inr ()
      \<and> frame c (snd (for_each ms (\<lambda>metric. export_metric metric c) w))
      \<and> map_of (fs (snd (for_each ms (\<lambda>metric. export_metric metric c) w))) ''metrics''
          = Some (Dir sub')
      \<and> (\<forall>metric\<in>set ms. map_of sub' (fst metric @ ''.csv'')
          = Some (File (Csv (fst (metric_table (snd metric) c)) (snd (metric_table (snd metric) c)))))
      \<and> (\<forall>x. (\<forall>metric\<in>set ms. x \<noteq> fst metric @ ''.csv'' \<and> x \<noteq> fst metric @ ''.json'')
             \<longrightarrow> map_of sub' x = map_of sub x)"
proof (induction ms arbitrary: w sub)
  case Nil
  then show ?case by (simp add: ret_def)
next
  case (Cons m ms)
  let ?one = "export_metric m c"
  let ?rest = "for_each ms (\<lambda>metric. export_metric metric c)"
  from export_metric_total [OF Cons.prems(1) Cons.prems(2), of m]
  obtain sub1 where r: "fst (?one w) = Inr ()" and f1: "frame c (snd (?one w))"
    and m1: "map_of (fs (snd (?one w))) ''metrics'' = Some (Dir sub1)"
    and c1: "map_of sub1 (fst m @ ''.csv'')
          = Some (File (Csv (fst (metric_table (snd m) c)) (snd (metric_table (snd m) c))))"
    and o1: "\<And>x. x \<noteq> fst m @ ''.csv'' \<Longrightarrow> x \<noteq> fst m @ ''.json'' \<Longrightarrow> map_of sub1 x = map_of sub x"
    by blast
  from Cons.prems(3) have d: "distinct (map fst ms)" and nm: "fst m \<notin> fst ` set ms" by simp_all
  from Cons.IH [OF f1 m1 d]
  obtain sub' where r2: "fst (?rest (snd (?one w))) = Inr ()"
    and f2: "frame c (snd (?rest (snd (?one w))))"
    and m2: "map_of (fs (snd (?rest (snd (?one w))))) ''metrics'' = Some (Dir sub')"
    and c2: "\<And>metric. metric \<in> set ms \<Longrightarrow> map_of sub' (fst metric @ ''.csv'')
          = Some (File (Csv (fst (metric_table (snd metric) c)) (snd (metric_table (snd metric) c))))"
    and o2: "\<And>x. (\<forall>metric\<in>set ms. x \<noteq> fst metric @ ''.csv'' \<and> x \<noteq> fst metric @ ''.json'')
             \<Longrightarrow> map_of sub' x = map_of sub1 x"
    by blast
  have step: "for_each (m # ms) (\<lambda>metric. export_metric metric c) w = ?rest (snd (?one w))"
    using r by (cases "?one w") (simp add: seq_def)
  have other: "\<forall>metric\<in>set ms. fst m @ ''.csv'' \<noteq> fst metric @ ''.csv''
      \<and> fst m @ ''.csv'' \<noteq> fst metric @ ''.json''"
    using nm by auto
  have cm: "map_of sub' (fst m @ ''.csv'')
      = Some (File (Csv (fst (metric_table (snd m) c)) (snd (metric_table (snd m) c))))"
    using o2 [OF other] c1 by simp
  have o: "\<forall>x. (\<forall>metric\<in>set (m # ms). x \<noteq> fst metric @ ''.csv'' \<and> x \<noteq> fst metric @ ''.json'')
             \<longrightarrow> map_of sub' x = map_of sub x"
    using o1 o2 by auto
  show ?case
    unfolding step using r2 f2 m2 cm c2 o
    by (intro exI [of _ sub']) auto
qed

lemma makedirs_metrics:
  assumes f: "frame c w"
  shows "\<exists>sub. fst (os_makedirs [''metrics''] w) = Inr ()
      \<and> frame c (snd (os_makedirs [''metrics''] w))
      \<and> map_of (fs (snd (os_makedirs [''metrics''] w))) ''metrics'' = Some (Dir sub)"
proof -
  from f have ok: "output_dir_ok (fs w)" and c: "all_results w = c" by (simp_all add: frame_def)
  show ?thesis
  proof (cases "map_of (fs w) ''metrics''")
    case None
    have "output_dir_ok (AList.update ''metrics'' (Dir []) (fs w))"
      using ok by (auto intro: ok_update)
    with None c show ?thesis
      by (simp add: os_makedirs_def fs_step_def makedirs_fresh frame_def map_of_update_same)
  next
    case (Some v)
    from ok_lookup [OF ok Some] obtain sub where v: "v = Dir sub" by (cases v) auto
    with Some f show ?thesis
      by (simp add: os_makedirs_def fs_step_def makedirs_existing frame_def)
  qed
qed

lemma collect_total:
  assumes f: "frame c w"
  shows "fst (collect_and_save_metrics c w) = Inr ()
      \<and> frame c (snd (collect_and_save_metrics c w))
      \<and> (\<forall>metric\<in>set METRICS_TO_COLLECT.
            lookup (fs (snd (collect_and_save_metrics c w))) [''metrics'', fst metric @ ''.csv'']
            = Some (File (Csv (fst (metric_table (snd metric) c))
                              (snd (metric_table (snd metric) c)))))"
proof -
  let ?mk = "os_makedirs [''metrics'']"
  let ?loop = "for_each METRICS_TO_COLLECT (\<lambda>metric. export_metric metric c)"
  let ?rep = "Report (fst (metrics_summary c))"
  from makedirs_metrics [OF f]
  obtain sub where r0: "fst (?mk w) = Inr ()" and f0: "frame c (snd (?mk w))"
    and m0: "map_of (fs (snd (?mk w))) ''metrics'' = Some (Dir sub)" by blast
  have d: "distinct (map fst METRICS_TO_COLLECT)" by (simp add: METRICS_TO_COLLECT_def)
  from exports_total [OF f0 m0 d]
  obtain sub' where r1: "fst (?loop (snd (?mk w))) = Inr ()"
    and f1: "frame c (snd (?loop (snd (?mk w))))"
    and m1: "map_of (fs (snd (?loop (snd (?mk w))))) ''metrics'' = Some (Dir sub')"
    and c1: "\<And>metric. metric \<in> set METRICS_TO_COLLECT \<Longrightarrow> map_of sub' (fst metric @ ''.csv'')
          = Some (File (Csv (fst (metric_table (snd metric) c)) (snd (metric_table (snd metric) c))))"
    by blast
  let ?w1 = "snd (?loop (snd (?mk w)))"
  let ?w2 = "?w1\<lparr>fs := AList.update ''metrics''
                 (Dir (AList.update ''metrics_summary.txt'' (File ?rep) sub')) (fs ?w1)\<rparr>"
  from metrics_write [OF f1 m1, of "''metrics_summary.txt''" ?rep]
  have s2: "fs_step (\<lambda>es. write_at es [''metrics'', ''metrics_summary.txt''] ?rep) ?w1 = (Inr (), ?w2)"
    and f2: "frame c ?w2" by simp_all
  have e: "collect_and_save_metrics c w = (Inr (), ?w2)"
    using r0 r1 s2
    by (cases "?mk w"; cases "?loop (snd (?mk w))")
       (simp add: collect_and_save_metrics_def seq_def try_except_def)
  have "\<forall>metric\<in>set METRICS_TO_COLLECT.
            lookup (fs ?w2) [''metrics'', fst metric @ ''.csv'']
            = Some (File (Csv (fst (metric_table (snd metric) c))
                              (snd (metric_table (snd metric) c))))"
    using c1 by (auto simp: lookup.simps map_of_update_same update_conv')
  with f2 show ?thesis unfolding e by simp
qed

subsection \<open>The whole batch\<close>

lemma total_results_pos: "map_of c x = Some rs \<Longrightarrow> rs \<noteq> [] \<Longrightarrow> total_results c \<noteq> 0"
proof -
  assume m: "map_of c x = Some rs" and ne: "rs \<noteq> []"
  from m have "(x, rs) \<in> set c" by (rule map_of_SomeD)
  then have "length rs \<in> set (map (\<lambda>item. length (snd item)) c)" by force
  then have "length rs \<le> total_results c"
    unfolding total_results_def by (simp add: member_le_sum_list)
  moreover from ne have "0 < length rs" by simp
  ultimately show ?thesis by linarith
qed

lemma config_name:
  "\<not> digit_end ''experiment_config.json'' \<and> ''experiment_config.json'' \<noteq> ''metrics''"
  by (simp add: digit_end_def)

text \<open>
  Claim C3, as amended. For every list of solvers, every number of runs and every number
  of slots, with an engine module that cannot be imported or whose entry point raises
  nothing but exceptions deriving from \<^verbatim>\<open>Exception\<close>, and an output directory whose
  sub-directories are run directories or the directory \<^verbatim>\<open>metrics\<close> of files:
  \<^verbatim>\<open>main\<close> returns, no exception of a run or of a solver leaves it; the corpus holds,
  for every short name, one record for each run of each solver of that name, whatever
  the runs did; and when there is at least one solver and one run, the table of each of
  the five metrics is in \<^verbatim>\<open>metrics\<close>, computed from that corpus. Nothing is said of
  the status of a record.
\<close>

theorem batch_resilience:
  assumes ok: "output_dir_ok (fs w)" and p: "polite mm"
  shows "fst (main mm solvers num_runs num_slots od w) = Inr ()
     \<and> (\<forall>x. length (records (all_results (snd (main mm solvers num_runs num_slots od w))) x)
             = num_runs * count_list (map short_name solvers) x)
     \<and> (solvers \<noteq> [] \<and> 0 < num_runs \<longrightarrow>
          (\<forall>metric\<in>set METRICS_TO_COLLECT.
             lookup (fs (snd (main mm solvers num_runs num_slots od w)))
               [''metrics'', fst metric @ ''.csv'']
             = Some (File (Csv
                 (fst (metric_table (snd metric)
                        (all_results (snd (main mm solvers num_runs num_slots od w)))))
                 (snd (metric_table (snd metric)
                        (all_results (snd (main mm solvers num_runs num_slots od w)))))))))"
proof -
  let ?c0 = "init_results solvers"
  let ?w0 = "w\<lparr>all_results := ?c0\<rparr>"
  let ?L1 = "for_each solvers (solver_once mm num_runs num_slots od)"
  let ?L2 = "for_each solvers (reconcile mm num_slots od)"
  have f0: "frame ?c0 ?w0" using ok by (simp add: frame_def)
  have d0: "short_name ` set solvers \<subseteq> dom (map_of ?c0)"
    by (auto simp: init_results_map)
  from solvers_total [OF p f0 d0, of num_runs num_slots od]
  obtain c' where r1: "fst (?L1 ?w0) = Inr ()" and f1: "frame c' (snd (?L1 ?w0))"
    and n1: "\<And>x. length (records c' x)
                = length (records ?c0 x) + num_runs * count_list (map short_name solvers) x"
    by blast
  obtain w1 where w1: "?L1 ?w0 = (Inr (), w1)" using r1 by (cases "?L1 ?w0") auto
  with f1 have f1': "frame c' w1" by simp
  from reconcile_loop [OF p f1', of solvers num_slots od]
  have r2: "fst (?L2 w1) = Inr ()" and f2: "frame c' (snd (?L2 w1))" by simp_all
  obtain w2 where w2: "?L2 w1 = (Inr (), w2)" using r2 by (cases "?L2 w1") auto
  with f2 have f2': "frame c' w2" by simp
  then have a2: "all_results w2 = c'" by (simp add: frame_def)
  have len: "\<And>x. length (records c' x) = num_runs * count_list (map short_name solvers) x"
    using n1 by (simp add: records_def init_results_map)
  define w3 where "w3 = (if total_results c' = 0 then w2 else snd (collect_and_save_metrics c' w2))"
  have T: "total_results c' = 0 \<Longrightarrow> w3 = w2" by (simp add: w3_def)
  have F: "total_results c' \<noteq> 0 \<Longrightarrow> collect_and_save_metrics c' w2 = (Inr (), w3)"
    using collect_total [OF f2'] by (cases "collect_and_save_metrics c' w2") (auto simp: w3_def)
  have f3: "frame c' w3"
    using collect_total [OF f2'] f2' by (simp add: w3_def)
  have x3: "total_results c' \<noteq> 0 \<Longrightarrow> (\<forall>metric\<in>set METRICS_TO_COLLECT.
            lookup (fs w3) [''metrics'', fst metric @ ''.csv'']
            = Some (File (Csv (fst (metric_table (snd metric) c'))
                              (snd (metric_table (snd metric) c')))))"
    using collect_total [OF f2'] by (simp add: w3_def)
  let ?cfg = "PDict [(''num_solvers'', PNum (real (length solvers))),
               (''solvers'', PList (map PStr solvers)),
               (''num_runs_per_solver'', PNum (real num_runs)),
               (''num_slots_per_experiment'', PNum (of_int num_slots)),
               (''total_runs'', PNum (real (length solvers * num_runs))),
               (''total_results_collected'', PNum (real (total_results c'))),
               (''output_dir'', PStr od),
               (''metrics_collected'', PList (map (\<lambda>metric. PStr (fst metric)) METRICS_TO_COLLECT)),
               (''timestamp'', PStr (clock w3))]"
  let ?w4 = "w3\<lparr>fs := AList.update ''experiment_config.json'' (File (Json ?cfg)) (fs w3)\<rparr>"
  from top_file_write [OF f3 config_name, of "Json ?cfg"]
  have s4: "json_dump [''experiment_config.json''] ?cfg w3 = (Inr (), ?w4)"
    and f4: "frame c' ?w4" by (simp_all add: json_dump_def)
  have m: "main mm solvers num_runs num_slots od w = (Inr (), ?w4)"
  proof (cases "total_results c' = 0")
    case True
    with w1 w2 s4 a2 T show ?thesis
      by (simp add: main_def seq_def strftime_def ret_def)
  next
    case False
    with w1 w2 s4 a2 F show ?thesis
      by (simp add: main_def seq_def strftime_def try_except_def)
  qed
  have keep: "\<And>x. lookup (fs ?w4) [''metrics'', x] = lookup (fs w3) [''metrics'', x]"
    by (simp add: lookup.simps map_of_update_other)
  have a4: "all_results ?w4 = c'" using f4 by (simp add: frame_def)
  have pos: "solvers \<noteq> [] \<and> 0 < num_runs \<Longrightarrow> total_results c' \<noteq> 0"
  proof -
    assume a: "solvers \<noteq> [] \<and> 0 < num_runs"
    then obtain s ss where s: "solvers = s # ss" by (cases solvers) auto
    with len [of "short_name s"] a have "0 < length (records c' (short_name s))" by simp
    then obtain rs where "map_of c' (short_name s) = Some rs" "rs \<noteq> []"
      by (auto simp: records_def split: option.splits)
    then show ?thesis by (rule total_results_pos)
  qed
  show ?thesis
    unfolding m using len x3 pos keep a4 by simp
qed

theorem batch_resilience_witness:
  "fst (main (Some mixed_engine)
          [''solvers.OLMA_Solver_perfect.OLMA_Solver'', ''solvers.NOMA_VEC_Solver.NOMA_VEC_Solver'']
          3 5 ''out'' start_world) = Inr ()
   \<and> length (records (all_results (snd (main (Some mixed_engine)
          [''solvers.OLMA_Solver_perfect.OLMA_Solver'', ''solvers.NOMA_VEC_Solver.NOMA_VEC_Solver'']
          3 5 ''out'' start_world))) ''OLMA_Solver'') = 3
   \<and> length (records (all_results (snd (main (Some mixed_engine)
          [''solvers.OLMA_Solver_perfect.OLMA_Solver'', ''solvers.NOMA_VEC_Solver.NOMA_VEC_Solver'']
          3 5 ''out'' start_world))) ''NOMA_VEC_Solver'') = 3
   \<and> lookup (fs (snd (main (Some mixed_engine)
          [''solvers.OLMA_Solver_perfect.OLMA_Solver'', ''solvers.NOMA_VEC_Solver.NOMA_VEC_Solver'']
          3 5 ''out'' start_world))) [''metrics'', ''queue stability.csv'']
       = Some (File (Csv
           (fst (metric_table ''Avg_queue'' (all_results (snd (main (Some mixed_engine)
              [''solvers.OLMA_Solver_perfect.OLMA_Solver'',
               ''solvers.NOMA_VEC_Solver.NOMA_VEC_Solver'']
              3 5 ''out'' start_world)))))
           (snd (metric_table ''Avg_queue'' (all_results (snd (main (Some mixed_engine)
              [''solvers.OLMA_Solver_perfect.OLMA_Solver'',
               ''solvers.NOMA_VEC_Solver.NOMA_VEC_Solver'']
              3 5 ''out'' start_world)))))))"
proof -
  let ?solvers = "[''solvers.OLMA_Solver_perfect.OLMA_Solver'',
                   ''solvers.NOMA_VEC_Solver.NOMA_VEC_Solver'']"
  let ?w = "snd (main (Some mixed_engine) ?solvers 3 5 ''out'' start_world)"
  have ok: "output_dir_ok (fs start_world)"
    by (simp add: start_world_def output_dir_ok_def)
  have p: "polite (Some mixed_engine)"
    by (simp add: polite_def mixed_engine_def)
  note t = batch_resilience [OF ok p, of ?solvers 3 5 "''out''"]
  have m: "(''queue stability'', ''Avg_queue'') \<in> set METRICS_TO_COLLECT"
    by (simp add: METRICS_TO_COLLECT_def)
  from t have c1: "fst (main (Some mixed_engine) ?solvers 3 5 ''out'' start_world) = Inr ()"
    by blast
  from t have n: "\<And>x. length (records (all_results ?w) x)
      = 3 * count_list (map short_name ?solvers) x"
    by blast
  from n [of "''OLMA_Solver''"] have c2: "length (records (all_results ?w) ''OLMA_Solver'') = 3"
    by (simp add: short_name_def)
  from n [of "''NOMA_VEC_Solver''"]
  have c3: "length (records (all_results ?w) ''NOMA_VEC_Solver'') = 3"
    by (simp add: short_name_def)
  from t have "\<forall>metric\<in>set METRICS_TO_COLLECT.
      lookup (fs ?w) [''metrics'', fst metric @ ''.csv'']
        = Some (File (Csv (fst (metric_table (snd metric) (all_results ?w)))
                          (snd (metric_table (snd metric) (all_results ?w)))))"
    by simp
  from this m have c4: "lookup (fs ?w) [''metrics'', fst (''queue stability'', ''Avg_queue'') @ ''.csv'']
        = Some (File (Csv (fst (metric_table (snd (''queue stability'', ''Avg_queue'')) (all_results ?w)))
                          (snd (metric_table (snd (''queue stability'', ''Avg_queue'')) (all_results ?w)))))"
    by (rule bspec)
  from c1 c2 c3 c4 show ?thesis by simp
qed

text \<open>
  Claim C3 as stated fails on the tag of the records: of two solvers, the entry point
  raises in every run of \<^verbatim>\<open>NOMA_VEC_Solver\<close> and leaves no artifact. The batch
  returns and the corpus holds a record for the run, but its status is
  \<^verbatim>\<open>partial_results\<close>, neither \<^verbatim>\<open>error\<close> nor \<^verbatim>\<open>critical_error\<close>: the executor
  catches the exception of the entry point and goes on to its search.
\<close>

theorem failed_solver_tagged_partial_results:
  "map (\<lambda>r. map_of r ''status'')
     (records (all_results (snd (main (Some mixed_engine)
        [''solvers.OLMA_Solver_perfect.OLMA_Solver'', ''solvers.NOMA_VEC_Solver.NOMA_VEC_Solver'']
        1 5 ''out'' start_world))) ''NOMA_VEC_Solver'')
   = [Some (PStr ''partial_results'')]"
  by code_simp

section \<open>The coordinator: error records\<close>

text \<open>
  Claim C5 (the code departs from it). The two records the coordinator makes, for a run
  that raised and for a solver that raised, hold \<open>C_mean\<close>, \<open>avg_delay_mean\<close> and
  \<open>DecisionTime_ms_mean\<close> and neither \<open>Avg_queue\<close> nor
  \<open>C_mean_avg_delay_ratio\<close>; the two fallback records of the executor hold all five.
  When the path of the run directory is taken by a file the executor raises, and the
  record the coordinator appends to the corpus is the first of the two.
\<close>

theorem coordinator_records_lack_metrics:
  "map_of (run_error_result s i n e) ''Avg_queue'' = None
   \<and> map_of (run_error_result s i n e) ''C_mean_avg_delay_ratio'' = None
   \<and> map_of (critical_error_result s n e) ''Avg_queue'' = None
   \<and> map_of (critical_error_result s n e) ''C_mean_avg_delay_ratio'' = None
   \<and> map (\<lambda>metric. map_of (basic_summary_partial s n) (snd metric)) METRICS_TO_COLLECT
       = [Some (PNum 0), Some (PNum 0), Some (PNum 0), Some (PNum 0), Some (PNum 0)]
   \<and> map (\<lambda>metric. map_of (basic_summary_error s i n e) (snd metric)) METRICS_TO_COLLECT
       = [Some (PNum 0), Some (PNum 0), Some (PNum 0), Some (PNum 0), Some (PNum 0)]
   \<and> all_results (snd (run_once (Some silent_engine)
         ''solvers.OLMA_Solver_perfect.OLMA_Solver'' 5 ''out'' 0 blocked_world))
       = [(''OLMA_Solver'',
           [run_error_result ''solvers.OLMA_Solver_perfect.OLMA_Solver'' 0 5
              (Exn ''FileExistsError'' ''OLMA_Solver_run_1'')])]"
proof (intro conjI)
  show "all_results (snd (run_once (Some silent_engine)
         ''solvers.OLMA_Solver_perfect.OLMA_Solver'' 5 ''out'' 0 blocked_world))
       = [(''OLMA_Solver'',
           [run_error_result ''solvers.OLMA_Solver_perfect.OLMA_Solver'' 0 5
              (Exn ''FileExistsError'' ''OLMA_Solver_run_1'')])]"
    by code_simp
qed (simp_all add: run_error_result_def critical_error_result_def basic_summary_partial_def
      basic_summary_error_def METRICS_TO_COLLECT_def)

section \<open>Ratio injection: properties\<close>



section \<open>The summary report: properties\<close>













section \<open>The per-metric table: properties\<close>

text \<open>
  Claim C8 (the code departs from it). The values of a solver are appended one after the
  other, a record without the key appends nothing, and row \<open>i\<close> of the table reads the
  \<open>i\<close>-th appended value. With three runs of which the second lacks \<open>Avg_queue\<close>,
  the table has two rows and the second row holds the value of the third run.
\<close>

theorem metric_table_shifts_values:
  "metric_table ''Avg_queue''
     [(''OLMA_Solver'',
        [[(''solver'', PStr ''solvers.OLMA_Solver_perfect.OLMA_Solver''), (''run'', PNum 1),
          (''Avg_queue'', PNum 4)],
         [(''solver'', PStr ''solvers.OLMA_Solver_perfect.OLMA_Solver''), (''run'', PNum 2),
          (''C_mean'', PNum 0)],
         [(''solver'', PStr ''solvers.OLMA_Solver_perfect.OLMA_Solver''), (''run'', PNum 3),
          (''Avg_queue'', PNum 6)]])]
   = ([''run number'', ''OLMA_Solver''], [(1, [Value (PNum 4)]), (2, [Value (PNum 6)])])"
  by (simp add: metric_table_def has_data_def collect_metric_data_def metric_values_def
      table_cell_def List.map_filter_def upt_rec)

end
